theory Spec2Isabelle
  imports Complex_Main "HOL-Library.Multiset" "HOL-Library.Product_Lexorder" "HOL-Library.Word"
begin

section \<open>Rows of the managed database (database.types.ts, schema.sql)\<close>

text \<open>
  The three tables the generation workflow touches. Identifiers are strings (uuids),
  timestamps are natural numbers (a larger number is a later instant), nullable columns
  are options. The column names are the source's, prefixed by the table's letter.

  The prompt is the one text whose characters the code looks at (the page trims it), so
  it is a JavaScript string: a list of UTF-16 code units. Every other string is only
  compared, concatenated or passed on, and is a list of bytes. \<open>js\<close> writes an ASCII
  literal as a JavaScript string.
\<close>

type_synonym js_string = "16 word list"

definition js :: "string \<Rightarrow> js_string" where
  "js s = map (\<lambda>c. of_nat (of_char c)) s"

datatype prompt_type = T_image | T_video

datatype prompt_status = P_pending | P_processing | P_completed | P_failed

datatype video_status = V_queued | V_running | V_succeeded | V_failed | V_cancelled

record prompt_row =
  p_id :: string
  p_user_id :: string
  p_prompt :: js_string
  p_created_at :: nat
  p_updated_at :: nat
  p_model_used :: string
  p_type :: prompt_type
  p_size :: "string option"
  p_guidance_scale :: "real option"
  p_language :: string
  p_status :: prompt_status

record image_row =
  i_id :: string
  i_prompt_id :: string
  i_url :: string
  i_created_at :: nat
  i_updated_at :: nat
  i_size :: string
  i_b64 :: "string option"
  i_file_size :: "nat option"
  i_mime_type :: "string option"

record video_row =
  v_id :: string
  v_prompt_id :: string
  v_url :: "string option"
  v_status :: video_status
  v_created_at :: nat
  v_updated_at :: nat
  v_duration :: "nat option"
  v_aspect_ratio :: "string option"
  v_file_size :: "nat option"
  v_mime_type :: "string option"
  v_task_id :: "string option"
  v_error_message :: "string option"

text \<open>A binary object as the code reads it: \<open>blob.size\<close> and \<open>blob.type\<close>.\<close>

record blob =
  blob_size :: nat
  blob_type :: string

text \<open>The tables and the \<open>images\<close> storage bucket (path and object, in upload order).\<close>

record db =
  prompts :: "prompt_row list"
  images :: "image_row list"
  videos :: "video_row list"
  bucket :: "(string \<times> blob) list"

section \<open>The persistence collaborator (supabase-js query builder)\<close>

text \<open>
  A query resolves to \<open>{ data, error }\<close>. A fault (network, row-level security, a key
  that is missing or taken) is decided by the environment and passed in as
  \<open>pg_error option\<close>; without a fault the query is evaluated on the table. \<open>.single()\<close>
  answers with the error code PGRST116 unless exactly one row is selected.
\<close>

record pg_error =
  pg_code :: string
  pg_message :: string

record 'a pg_response =
  resp_data :: "'a option"
  resp_error :: "pg_error option"

definition PGRST116 :: pg_error where
  "PGRST116 = \<lparr>pg_code = ''PGRST116'',
                pg_message = ''JSON object requested, multiple (or no) rows returned''\<rparr>"


definition single :: "pg_error option \<Rightarrow> 'a list \<Rightarrow> 'a pg_response" where
  "single fault rows =
     (case fault of
        Some e \<Rightarrow> \<lparr>resp_data = None, resp_error = Some e\<rparr>
      | None \<Rightarrow>
          (case rows of
             [r] \<Rightarrow> \<lparr>resp_data = Some r, resp_error = None\<rparr>
           | _ \<Rightarrow> \<lparr>resp_data = None, resp_error = Some PGRST116\<rparr>))"



section \<open>Lookups by id (PromptContext.getPromptById, VideoContext.getVideoById)\<close>

text \<open>
  A thrown \<open>Error\<close> is \<open>Inl\<close> of its message; \<open>null\<close> is \<open>None\<close>. The first
  definition of each pair is the body of the source function after the \<open>await\<close>, on the
  response it destructures; the second runs the query
  \<open>from(table).select("*").eq("id", id).single()\<close> on the table.
\<close>

definition getPromptById_response :: "prompt_row pg_response \<Rightarrow> string + prompt_row option" where
  "getPromptById_response r =
     (case resp_error r of
        Some e \<Rightarrow>
          if pg_code e = ''PGRST116'' then Inr None
          else Inl (''Failed to get prompt: '' @ pg_message e)
      | None \<Rightarrow> Inr (resp_data r))"

definition getPromptById :: "pg_error option \<Rightarrow> db \<Rightarrow> string \<Rightarrow> string + prompt_row option" where
  "getPromptById fault d ident =
     getPromptById_response (single fault (filter (\<lambda>p. p_id p = ident) (prompts d)))"

definition getVideoById_response :: "video_row pg_response \<Rightarrow> string + video_row option" where
  "getVideoById_response r =
     (case resp_error r of
        Some e \<Rightarrow>
          if pg_code e = ''PGRST116'' then Inr None
          else Inl (''Failed to get video: '' @ pg_message e)
      | None \<Rightarrow> Inr (resp_data r))"

definition getVideoById :: "pg_error option \<Rightarrow> db \<Rightarrow> string \<Rightarrow> string + video_row option" where
  "getVideoById fault d ident =
     getVideoById_response (single fault (filter (\<lambda>v. v_id v = ident) (videos d)))"

section \<open>History reads (PromptContext.getUserPrompts, ImageContext.getUserImages)\<close>







section \<open>Status polling (VideoContext.pollVideoStatus)\<close>

text \<open>
  \<open>pollVideoStatus\<close> starts an interval timer whose callback is an async function with one
  \<open>await\<close>. On the event loop that callback runs in two atomic parts: the timer fires
  and the status query is issued (\<open>Tick\<close>); later the query settles and the rest of the
  body runs (\<open>Settle\<close>, carrying the environment's fault and the database at that
  instant). \<open>Cancel\<close> is the caller invoking the returned cleanup function. Events may
  interleave in any order, so a slow query can still be pending when the next tick or a
  cancel arrives; such a query still runs the rest of the body when it settles. The
  caller's callback is taken not to throw.

  The poller's state: whether \<open>intervalId\<close> is still scheduled, how many queries are
  pending, how many were issued, the snapshots handed to \<open>onStatusChange\<close> (in order),
  the provider's \<open>videos\<close> state, and what was written with \<open>console.error\<close>.
\<close>

record poller =
  videoId :: string
  hasCallback :: bool
  scheduled :: bool
  pending :: nat
  issued :: nat
  delivered :: "video_row list"
  localVideos :: "video_row list"
  console :: "string list"

datatype event = Tick | Settle "pg_error option" db | Cancel

definition pollVideoStatus :: "string \<Rightarrow> bool \<Rightarrow> video_row list \<Rightarrow> poller" where
  "pollVideoStatus ident cb vs =
     \<lparr>videoId = ident, hasCallback = cb, scheduled = True, pending = 0, issued = 0,
      delivered = [], localVideos = vs, console = []\<rparr>"

definition clearInterval :: "poller \<Rightarrow> poller" where
  "clearInterval s = s\<lparr>scheduled := False\<rparr>"

definition is_final :: "video_status \<Rightarrow> bool" where
  "is_final st = (st = V_succeeded \<or> st = V_failed \<or> st = V_cancelled)"

text \<open>The body of the timer callback after \<open>await getVideoById(videoId)\<close>.\<close>

definition after_query :: "string + video_row option \<Rightarrow> poller \<Rightarrow> poller" where
  "after_query r s =
     (case r of
        Inl msg \<Rightarrow>
          clearInterval (s\<lparr>console := console s @ [''Failed to poll video status: '' @ msg]\<rparr>)
      | Inr None \<Rightarrow> s
      | Inr (Some video) \<Rightarrow>
          (let s1 = s\<lparr>localVideos :=
                      map (\<lambda>vid. if v_id vid = v_id video then video else vid) (localVideos s)\<rparr>;
               s2 = (if hasCallback s1 then s1\<lparr>delivered := delivered s1 @ [video]\<rparr> else s1)
           in if is_final (v_status video) then clearInterval s2 else s2))"

fun step :: "poller \<Rightarrow> event \<Rightarrow> poller" where
  "step s Tick =
     (if scheduled s then s\<lparr>pending := Suc (pending s), issued := Suc (issued s)\<rparr> else s)"
| "step s (Settle fault d) =
     (if pending s = 0 then s
      else after_query (getVideoById fault d (videoId s)) (s\<lparr>pending := pending s - 1\<rparr>))"
| "step s Cancel = clearInterval s"

fun run :: "poller \<Rightarrow> event list \<Rightarrow> poller" where
  "run s [] = s"
| "run s (e # es) = run (step s e) es"

section \<open>Image generation (api/imageApi.ts)\<close>

text \<open>Template literals print numbers in decimal.\<close>

fun string_of_nat :: "nat \<Rightarrow> string" where
  "string_of_nat n =
     (if n < 10 then [''0123456789'' ! n]
      else string_of_nat (n div 10) @ [''0123456789'' ! (n mod 10)])"

declare string_of_nat.simps [simp del]

record GenerateImageParams =
  gp_prompt :: js_string
  gp_model :: "string option"
  gp_size :: "string option"
  gp_guidance_scale :: "real option"
  gp_watermark :: "bool option"
  gp_userId :: string

record saved_image =
  si_id :: string
  si_url :: string
  si_bucketUrl :: string
  si_size :: string

record GeneratedImageResult =
  promptId :: string
  result_images :: "saved_image list"

text \<open>The columns an insert may supply (\<open>PromptInsert\<close>, \<open>ImageInsert\<close>).\<close>

record prompt_insert =
  pi_user_id :: string
  pi_prompt :: js_string
  pi_model_used :: string
  pi_type :: prompt_type
  pi_size :: "string option"
  pi_guidance_scale :: "real option"
  pi_language :: "string option"
  pi_status :: "prompt_status option"

record image_insert =
  ii_prompt_id :: string
  ii_url :: string
  ii_size :: string
  ii_file_size :: "nat option"
  ii_mime_type :: "string option"

text \<open>
  The body posted to \<open>/api/generate-image\<close>, and what \<open>fetch\<close> gives back: it rejects
  (a network failure, thrown as an \<open>Error\<close> with a message) or responds with a status,
  the body as text and the body as \<open>response.json()\<close> reads it: \<open>Malformed\<close>, the
  parser throws; \<open>Null_body\<close>, the body is \<open>null\<close>; \<open>Not_a_list\<close>, the \<open>data\<close> field
  of the body is a value that JavaScript takes for true and that has no \<open>length\<close> (a
  number, \<open>true\<close>, a plain object), so the loop has no turn; \<open>Parsed\<close>, the \<open>data\<close>
  field is absent or a value taken for false (\<open>None\<close>), or a list. An element of the
  list is \<open>null\<close> (\<open>None\<close>) or a value whose \<open>url\<close> is read (absent for a value that
  has none).
\<close>

record api_request =
  rq_prompt :: js_string
  rq_model :: string
  rq_size :: string
  rq_guidance_scale :: real
  rq_watermark :: bool

record api_item =
  item_url :: "string option"

datatype api_body =
    Malformed string
  | Null_body
  | Not_a_list
  | Parsed "api_item option list option"

record http_response =
  r_status :: nat
  r_text :: string
  r_body :: api_body

datatype api_result = Rejected string | Responded http_response

datatype download_result = Download_rejected string | Download_response nat string blob

text \<open>
  Everything the outside decides during one call of \<open>generateImage\<close>: the fault and the
  generated columns of the prompts insert, the answer of the generation endpoint, and,
  for the item at each index of the answer (every item is downloaded, uploaded and
  inserted at most once), the answer of the download, the client clock, the fault of the
  upload, the public url of a path, and the fault and the generated columns of the
  images insert. What the outside answers for one item is thus taken not to depend on
  what the call did for the other items. \<open>w_type_error p\<close> is the message of the
  \<open>TypeError\<close> the engine throws when the property \<open>p\<close> of \<open>null\<close> is read.
\<close>

record world =
  w_prompt_fault :: "pg_error option"
  w_prompt_id :: string
  w_now :: nat
  w_api :: "api_request \<Rightarrow> api_result"
  w_download :: "nat \<Rightarrow> string \<Rightarrow> download_result"
  w_date_now :: "nat \<Rightarrow> nat"
  w_upload_fault :: "nat \<Rightarrow> string \<Rightarrow> pg_error option"
  w_public_url :: "string \<Rightarrow> string"
  w_image_fault :: "nat \<Rightarrow> pg_error option"
  w_image_id :: "nat \<Rightarrow> string"
  w_image_now :: "nat \<Rightarrow> nat"
  w_type_error :: "string \<Rightarrow> string"

definition response_ok :: "nat \<Rightarrow> bool" where
  "response_ok st = (200 \<le> st \<and> st \<le> 299)"

text \<open>
  \<open>from(table).insert(row).select().single()\<close>: the error, or the stored row with the
  columns the database fills in (status \<open>pending\<close> for a prompt that names none). The
  environment's fault, when there is one, is the error. Otherwise the \<open>CHECK\<close>
  constraints of schema.sql are evaluated on the new row, a \<open>NULL\<close> passing:
  \<open>guidance_scale > 0\<close> and \<open>length(prompt) > 0\<close> for a prompt, \<open>file_size > 0\<close> for an
  image.
\<close>

definition quoted :: "string \<Rightarrow> string" where
  "quoted s = [CHR 0x22] @ s @ [CHR 0x22]"

definition check_violation :: "string \<Rightarrow> string \<Rightarrow> pg_error" where
  "check_violation table constraint_name =
     \<lparr>pg_code = ''23514'',
      pg_message = ''new row for relation '' @ quoted table @ '' violates check constraint ''
                     @ quoted constraint_name\<rparr>"

definition insert_prompt :: "world \<Rightarrow> prompt_insert \<Rightarrow> db \<Rightarrow> (pg_error + prompt_row) \<times> db" where
  "insert_prompt w ins d =
     (case w_prompt_fault w of
        Some e \<Rightarrow> (Inl e, d)
      | None \<Rightarrow>
          if (case pi_guidance_scale ins of None \<Rightarrow> False | Some g \<Rightarrow> \<not> 0 < g)
          then (Inl (check_violation ''prompts'' ''prompts_guidance_scale_check''), d)
          else if pi_prompt ins = []
          then (Inl (check_violation ''prompts'' ''prompts_prompt_check''), d)
          else
            (let row = \<lparr>p_id = w_prompt_id w, p_user_id = pi_user_id ins, p_prompt = pi_prompt ins,
                        p_created_at = w_now w, p_updated_at = w_now w,
                        p_model_used = pi_model_used ins, p_type = pi_type ins,
                        p_size = pi_size ins, p_guidance_scale = pi_guidance_scale ins,
                        p_language = (case pi_language ins of None \<Rightarrow> ''en'' | Some l \<Rightarrow> l),
                        p_status = (case pi_status ins of None \<Rightarrow> P_pending | Some st \<Rightarrow> st)\<rparr>
             in (Inr row, d\<lparr>prompts := prompts d @ [row]\<rparr>)))"

definition insert_image :: "world \<Rightarrow> nat \<Rightarrow> image_insert \<Rightarrow> db \<Rightarrow> (pg_error + image_row) \<times> db" where
  "insert_image w index ins d =
     (case w_image_fault w index of
        Some e \<Rightarrow> (Inl e, d)
      | None \<Rightarrow>
          if (case ii_file_size ins of None \<Rightarrow> False | Some n \<Rightarrow> \<not> 0 < n)
          then (Inl (check_violation ''images'' ''images_file_size_check''), d)
          else
            (let row = \<lparr>i_id = w_image_id w index, i_prompt_id = ii_prompt_id ins,
                        i_url = ii_url ins, i_created_at = w_image_now w index,
                        i_updated_at = w_image_now w index, i_size = ii_size ins, i_b64 = None,
                        i_file_size = ii_file_size ins,
                        i_mime_type = (case ii_mime_type ins of None \<Rightarrow> Some ''image/png''
                                       | Some m \<Rightarrow> Some m)\<rparr>
             in (Inr row, d\<lparr>images := images d @ [row]\<rparr>)))"

definition downloadImageAsBlob :: "world \<Rightarrow> nat \<Rightarrow> string \<Rightarrow> string + blob" where
  "downloadImageAsBlob w index imageUrl =
     (case w_download w index imageUrl of
        Download_rejected msg \<Rightarrow> Inl msg
      | Download_response st statusText b \<Rightarrow>
          if \<not> response_ok st
          then Inl (''Failed to download image: '' @ string_of_nat st @ '' '' @ statusText)
          else Inr b)"

text \<open>The upload stores the object under the file name, which is the path it answers with.\<close>

definition uploadImageToSupabase ::
  "world \<Rightarrow> nat \<Rightarrow> blob \<Rightarrow> string \<Rightarrow> db \<Rightarrow> (string + string) \<times> db" where
  "uploadImageToSupabase w index imageBlob fileName d =
     (case w_upload_fault w index fileName of
        Some e \<Rightarrow> (Inl (''Failed to upload image to storage: '' @ pg_message e), d)
      | None \<Rightarrow>
          (Inr (w_public_url w fileName), d\<lparr>bucket := bucket d @ [(fileName, imageBlob)]\<rparr>))"

definition file_name :: "world \<Rightarrow> prompt_row \<Rightarrow> nat \<Rightarrow> string" where
  "file_name w promptRecord index =
     p_id promptRecord @ ''_'' @ string_of_nat (index + 1) @ ''_''
       @ string_of_nat (w_date_now w index) @ ''.png''"

text \<open>
  One turn of the loop over \<open>data.data\<close>: an item without a url is skipped; the inner
  \<open>try\<close> catches a failed download or upload; a failed insert is logged and skipped.
  The result is the entry pushed on \<open>savedImages\<close>, if any.
\<close>

definition process_item ::
  "world \<Rightarrow> prompt_row \<Rightarrow> string \<Rightarrow> nat \<Rightarrow> api_item \<Rightarrow> db \<Rightarrow> saved_image option \<times> db" where
  "process_item w promptRecord sz index imageData d =
     (case item_url imageData of
        None \<Rightarrow> (None, d)
      | Some u \<Rightarrow>
          if u = [] then (None, d)
          else
            (case downloadImageAsBlob w index u of
               Inl _ \<Rightarrow> (None, d)
             | Inr imageBlob \<Rightarrow>
                 (case uploadImageToSupabase w index imageBlob (file_name w promptRecord index) d of
                    (Inl _, d1) \<Rightarrow> (None, d1)
                  | (Inr bucketUrl, d1) \<Rightarrow>
                      (let imageRecord =
                             \<lparr>ii_prompt_id = p_id promptRecord, ii_url = u, ii_size = sz,
                              ii_file_size = Some (blob_size imageBlob),
                              ii_mime_type = Some (if blob_type imageBlob = [] then ''image/png''
                                                   else blob_type imageBlob)\<rparr>
                       in (case insert_image w index imageRecord d1 of
                             (Inl _, d2) \<Rightarrow> (None, d2)
                           | (Inr savedImage, d2) \<Rightarrow>
                               (Some \<lparr>si_id = i_id savedImage, si_url = u,
                                      si_bucketUrl = bucketUrl, si_size = sz\<rparr>, d2))))))"

text \<open>
  The loop. \<open>imageData.url\<close> is read before the inner \<open>try\<close> opens, so a \<open>null\<close>
  element throws a \<open>TypeError\<close> that ends the loop and the call; what was stored for
  the elements before it stays stored. The result is that error, if any, and
  \<open>savedImages\<close> as the loop left it.
\<close>

fun process_images ::
  "world \<Rightarrow> prompt_row \<Rightarrow> string \<Rightarrow> nat \<Rightarrow> api_item option list \<Rightarrow> saved_image list \<Rightarrow> db
     \<Rightarrow> (string option \<times> saved_image list) \<times> db" where
  "process_images w promptRecord sz index [] savedImages d = ((None, savedImages), d)"
| "process_images w promptRecord sz index (None # rest) savedImages d =
     ((Some (w_type_error w ''url''), savedImages), d)"
| "process_images w promptRecord sz index (Some imageData # rest) savedImages d =
     (case process_item w promptRecord sz index imageData d of
        (None, d') \<Rightarrow> process_images w promptRecord sz (Suc index) rest savedImages d'
      | (Some saved, d') \<Rightarrow>
          process_images w promptRecord sz (Suc index) rest (savedImages @ [saved]) d')"

text \<open>The destructured parameters with their defaults, and the two values built from them.\<close>

definition model_of :: "GenerateImageParams \<Rightarrow> string" where
  "model_of params = (case gp_model params of None \<Rightarrow> ''seedream-3-0-t2i-250415'' | Some m \<Rightarrow> m)"

definition size_of :: "GenerateImageParams \<Rightarrow> string" where
  "size_of params = (case gp_size params of None \<Rightarrow> ''1024x1024'' | Some s \<Rightarrow> s)"

definition guidance_scale_of :: "GenerateImageParams \<Rightarrow> real" where
  "guidance_scale_of params = (case gp_guidance_scale params of None \<Rightarrow> 3 | Some g \<Rightarrow> g)"

definition watermark_of :: "GenerateImageParams \<Rightarrow> bool" where
  "watermark_of params = (case gp_watermark params of None \<Rightarrow> True | Some b \<Rightarrow> b)"

definition promptData :: "GenerateImageParams \<Rightarrow> prompt_insert" where
  "promptData params =
     \<lparr>pi_user_id = gp_userId params, pi_prompt = gp_prompt params,
      pi_model_used = model_of params, pi_type = T_image, pi_size = Some (size_of params),
      pi_guidance_scale = Some (guidance_scale_of params), pi_language = Some ''en'',
      pi_status = None\<rparr>"

definition request_body :: "GenerateImageParams \<Rightarrow> api_request" where
  "request_body params =
     \<lparr>rq_prompt = gp_prompt params, rq_model = model_of params, rq_size = size_of params,
      rq_guidance_scale = guidance_scale_of params, rq_watermark = watermark_of params\<rparr>"

text \<open>
  \<open>generateImage\<close>: the thrown \<open>Error\<close> is \<open>Inl\<close> of its message (the outer \<open>catch\<close>
  rethrows it), together with the database as the call leaves it.
\<close>

definition generateImage ::
  "world \<Rightarrow> GenerateImageParams \<Rightarrow> db \<Rightarrow> (string + GeneratedImageResult) \<times> db" where
  "generateImage w params d =
     (case insert_prompt w (promptData params) d of
        (Inl promptError, d1) \<Rightarrow>
          (Inl (''Failed to create prompt record: '' @ pg_message promptError), d1)
      | (Inr promptRecord, d1) \<Rightarrow>
          (case w_api w (request_body params) of
             Rejected msg \<Rightarrow> (Inl msg, d1)
           | Responded response \<Rightarrow>
               if \<not> response_ok (r_status response)
               then (Inl (''Server error: '' @ string_of_nat (r_status response) @ '' - ''
                            @ r_text response), d1)
               else
                 (case r_body response of
                    Malformed msg \<Rightarrow> (Inl msg, d1)
                  | Null_body \<Rightarrow> (Inl (w_type_error w ''data''), d1)
                  | Not_a_list \<Rightarrow>
                      (Inl ''No images were successfully processed and saved'', d1)
                  | Parsed None \<Rightarrow> (Inl ''No image data received from API'', d1)
                  | Parsed (Some items) \<Rightarrow>
                      if items = [] then (Inl ''No image data received from API'', d1)
                      else
                        (case process_images w promptRecord (size_of params) 0 items [] d1 of
                           ((Some msg, savedImages), d2) \<Rightarrow> (Inl msg, d2)
                         | ((None, savedImages), d2) \<Rightarrow>
                             if savedImages = []
                             then (Inl ''No images were successfully processed and saved'', d2)
                             else (Inr \<lparr>promptId = p_id promptRecord,
                                        result_images = savedImages\<rparr>, d2)))))"

section \<open>The serverless function (api/generate-image.js)\<close>

text \<open>
  The request as the function reads it: the method and the body, which is absent
  (\<open>req.body\<close> undefined) or an object whose fields may each be absent. The prompt of
  the body is any JSON value, and \<open>!prompt\<close> holds of an absent prompt and of the values
  JavaScript takes for false; the other fields are taken to have the types the client
  sends. The environment: the configured key, the provider's endpoint, and the message of
  the \<open>TypeError\<close> the engine throws when an absent body is destructured. The reply: a
  status with no body, \<open>{ error: message }\<close>, or the provider's data.
\<close>

datatype json_value =
    J_null
  | J_bool bool
  | J_number real
  | J_string js_string
  | J_structure

definition falsy :: "json_value \<Rightarrow> bool" where
  "falsy v =
     (case v of
        J_null \<Rightarrow> True
      | J_bool b \<Rightarrow> \<not> b
      | J_number x \<Rightarrow> x = 0
      | J_string s \<Rightarrow> s = []
      | J_structure \<Rightarrow> False)"

record handler_body =
  hb_prompt :: "json_value option"
  hb_model :: "string option"
  hb_size :: "string option"
  hb_guidance_scale :: "real option"
  hb_watermark :: "bool option"

record handler_request =
  hq_method :: string
  hq_body :: "handler_body option"

record modelark_request =
  mr_model :: string
  mr_prompt :: json_value
  mr_response_format :: string
  mr_size :: string
  mr_guidance_scale :: real
  mr_watermark :: bool

record handler_env =
  ARK_API_KEY :: "string option"
  modelark :: "string \<Rightarrow> modelark_request \<Rightarrow> api_result"
  destructure_error :: string

datatype handler_payload =
    No_payload
  | Error_json string
  | Null_json
  | Other_json
  | Data_json "api_item option list option"

datatype handler_reply = Reply nat handler_payload

definition internal_error :: "string \<Rightarrow> handler_reply" where
  "internal_error msg =
     Reply 500 (Error_json (''Internal server error: ''
                              @ (if msg = [] then ''Unknown error'' else msg)))"

definition handler :: "handler_env \<Rightarrow> handler_request \<Rightarrow> handler_reply" where
  "handler env req =
     (if hq_method req = ''OPTIONS'' then Reply 200 No_payload
      else if hq_method req \<noteq> ''POST'' then Reply 405 (Error_json ''Method not allowed'')
      else
        (case hq_body req of
           None \<Rightarrow> internal_error (destructure_error env)
         | Some body \<Rightarrow>
            (case hb_prompt body of
               None \<Rightarrow> Reply 400 (Error_json ''Prompt is required'')
             | Some prompt \<Rightarrow>
                 if falsy prompt then Reply 400 (Error_json ''Prompt is required'')
                 else
                   (case ARK_API_KEY env of
                      None \<Rightarrow> Reply 500 (Error_json ''API key not configured'')
                    | Some apiKey \<Rightarrow>
                        if apiKey = [] then Reply 500 (Error_json ''API key not configured'')
                        else
                          (case modelark env apiKey
                                  \<lparr>mr_model = (case hb_model body of None \<Rightarrow> ''seedream-3-0-t2i-250415''
                                                | Some m \<Rightarrow> if m = [] then ''seedream-3-0-t2i-250415'' else m),
                                   mr_prompt = prompt, mr_response_format = ''url'',
                                   mr_size = (case hb_size body of None \<Rightarrow> ''1024x1024''
                                              | Some s \<Rightarrow> if s = [] then ''1024x1024'' else s),
                                   mr_guidance_scale = (case hb_guidance_scale body of None \<Rightarrow> 3
                                              | Some g \<Rightarrow> if g = 0 then 3 else g),
                                   mr_watermark = (case hb_watermark body of None \<Rightarrow> True
                                              | Some b \<Rightarrow> b)\<rparr> of
                             Rejected msg \<Rightarrow> internal_error msg
                           | Responded r \<Rightarrow>
                               if \<not> response_ok (r_status r)
                               then Reply (r_status r)
                                      (Error_json (''API Error: '' @ string_of_nat (r_status r)
                                                     @ '' - '' @ r_text r))
                               else
                                 (case r_body r of
                                    Malformed msg \<Rightarrow> internal_error msg
                                  | Null_body \<Rightarrow> Reply 200 Null_json
                                  | Not_a_list \<Rightarrow> Reply 200 Other_json
                                  | Parsed items \<Rightarrow> Reply 200 (Data_json items)))))))"

section \<open>The page and its hook (ImageGenerationPage.handleGenerate, useImageGeneration)\<close>

text \<open>
  \<open>String.prototype.trim\<close> removes from both ends the code units of ECMAScript's
  WhiteSpace and LineTerminator: tab, line feed, vertical tab, form feed, carriage
  return, space, no-break space, U+1680, U+2000 to U+200A, U+2028, U+2029, U+202F,
  U+205F, U+3000 and U+FEFF.
\<close>

definition is_space :: "16 word \<Rightarrow> bool" where
  "is_space c = (c \<in> set [0x09, 0x0A, 0x0B, 0x0C, 0x0D, 0x20, 0xA0, 0x1680,
     0x2000, 0x2001, 0x2002, 0x2003, 0x2004, 0x2005, 0x2006, 0x2007, 0x2008, 0x2009, 0x200A,
     0x2028, 0x2029, 0x202F, 0x205F, 0x3000, 0xFEFF])"

definition trim :: "js_string \<Rightarrow> js_string" where
  "trim s = rev (dropWhile is_space (rev (dropWhile is_space s)))"

text \<open>
  The hook's \<open>generateImage\<close>: without a signed-in user it sets its error and returns
  \<open>null\<close>; otherwise it calls the api with the user's id, and turns a thrown error into
  its error state and \<open>null\<close>. The result is the pair of the hook's error and its return
  value.
\<close>

definition useImageGeneration_generateImage ::
  "world \<Rightarrow> string option \<Rightarrow> GenerateImageParams \<Rightarrow> db
     \<Rightarrow> (string option \<times> GeneratedImageResult option) \<times> db" where
  "useImageGeneration_generateImage w user params d =
     (case user of
        None \<Rightarrow> ((Some ''User must be authenticated to generate images'', None), d)
      | Some uid \<Rightarrow>
          if uid = [] then ((Some ''User must be authenticated to generate images'', None), d)
          else
            (case generateImage w (params\<lparr>gp_userId := uid\<rparr>) d of
               (Inl msg, d') \<Rightarrow> ((Some msg, None), d')
             | (Inr result, d') \<Rightarrow> ((None, Some result), d')))"

record imageSettings =
  st_model :: string
  st_size :: string
  st_guidance_scale :: real
  st_watermark :: bool

datatype submit_outcome =
    Ignored
  | Alerted string
  | Submitted "string option" "GeneratedImageResult option"

definition handleGenerate ::
  "world \<Rightarrow> js_string \<Rightarrow> string option \<Rightarrow> imageSettings \<Rightarrow> db \<Rightarrow> submit_outcome \<times> db" where
  "handleGenerate w prompt user settings d =
     (if trim prompt = [] then (Ignored, d)
      else
        (case user of
           None \<Rightarrow> (Alerted ''Please log in to generate images'', d)
         | Some uid \<Rightarrow>
             (case useImageGeneration_generateImage w user
                     \<lparr>gp_prompt = trim prompt, gp_model = Some (st_model settings),
                      gp_size = Some (st_size settings),
                      gp_guidance_scale = Some (st_guidance_scale settings),
                      gp_watermark = Some (st_watermark settings), gp_userId = uid\<rparr> d of
                ((err, result), d') \<Rightarrow> (Submitted err result, d'))))"

section \<open>What the properties speak of\<close>



text \<open>
  The prompts insert of \<open>generateImage\<close> goes through: the environment names no fault
  and the row passes the table's constraints.
\<close>

definition insert_accepted :: "world \<Rightarrow> GenerateImageParams \<Rightarrow> bool" where
  "insert_accepted w params =
     (w_prompt_fault w = None \<and> 0 < guidance_scale_of params \<and> gp_prompt params \<noteq> [])"

text \<open>
  The row the first step of \<open>generateImage\<close> stores; an item of the answer processed
  alone, in a database that holds nothing but that prompt; a stored image row and the
  entry returned for it; an entry whose bytes were downloaded and uploaded at an index,
  the object being in the bucket under the name built there; an entry that comes from
  some item of the answer in that way.
\<close>

definition prompt_row_of :: "world \<Rightarrow> GenerateImageParams \<Rightarrow> prompt_row" where
  "prompt_row_of w params =
     \<lparr>p_id = w_prompt_id w, p_user_id = gp_userId params, p_prompt = gp_prompt params,
      p_created_at = w_now w, p_updated_at = w_now w, p_model_used = model_of params,
      p_type = T_image, p_size = Some (size_of params),
      p_guidance_scale = Some (guidance_scale_of params), p_language = ''en'',
      p_status = P_pending\<rparr>"


definition row_of_saved :: "prompt_row \<Rightarrow> string \<Rightarrow> image_row \<Rightarrow> saved_image \<Rightarrow> bool" where
  "row_of_saved promptRecord sz row s =
     (i_id row = si_id s \<and> i_url row = si_url s \<and> si_url s \<noteq> []
      \<and> i_prompt_id row = p_id promptRecord \<and> i_size row = sz \<and> si_size s = sz
      \<and> i_b64 row = None)"

definition transferred :: "world \<Rightarrow> prompt_row \<Rightarrow> db \<Rightarrow> nat \<Rightarrow> saved_image \<Rightarrow> bool" where
  "transferred w promptRecord d index s =
     (case downloadImageAsBlob w index (si_url s) of
        Inl _ \<Rightarrow> False
      | Inr b \<Rightarrow>
          w_upload_fault w index (file_name w promptRecord index) = None
          \<and> si_bucketUrl s = w_public_url w (file_name w promptRecord index)
          \<and> (file_name w promptRecord index, b) \<in> set (bucket d))"

definition provenance ::
  "world \<Rightarrow> prompt_row \<Rightarrow> db \<Rightarrow> nat \<Rightarrow> api_item option list \<Rightarrow> saved_image \<Rightarrow> bool" where
  "provenance w promptRecord d k items s =
     list_ex (\<lambda>i. (case items ! i of None \<Rightarrow> False
                     | Some imageData \<Rightarrow> item_url imageData = Some (si_url s))
                  \<and> transferred w promptRecord d (k + i) s)
       [0..<length items]"


text \<open>The error of a call whose 2xx answer has the given body and that stores no image row.\<close>

definition no_output_message :: "world \<Rightarrow> api_body \<Rightarrow> string" where
  "no_output_message w body =
     (case body of
        Malformed msg \<Rightarrow> msg
      | Null_body \<Rightarrow> w_type_error w ''data''
      | Not_a_list \<Rightarrow> ''No images were successfully processed and saved''
      | Parsed None \<Rightarrow> ''No image data received from API''
      | Parsed (Some items) \<Rightarrow>
          if items = [] then ''No image data received from API''
          else if None \<in> set items then w_type_error w ''url''
          else ''No images were successfully processed and saved'')"

text \<open>Every text column of an image row.\<close>

definition row_strings :: "image_row \<Rightarrow> string list" where
  "row_strings row =
     [i_id row, i_prompt_id row, i_url row, i_size row]
       @ (case i_b64 row of None \<Rightarrow> [] | Some b \<Rightarrow> [b])
       @ (case i_mime_type row of None \<Rightarrow> [] | Some m \<Rightarrow> [m])"

section \<open>Example data\<close>

definition video_running :: video_row where
  "video_running = \<lparr>v_id = ''v1'', v_prompt_id = ''p1'', v_url = None, v_status = V_running,
     v_created_at = 10, v_updated_at = 12, v_duration = Some 5, v_aspect_ratio = Some ''16:9'',
     v_file_size = None, v_mime_type = Some ''video/mp4'', v_task_id = Some ''t1'',
     v_error_message = None\<rparr>"

definition video_done :: video_row where
  "video_done = video_running\<lparr>v_url := Some ''https://x/v.mp4'', v_status := V_succeeded\<rparr>"

definition store_of :: "video_row \<Rightarrow> db" where
  "store_of v = \<lparr>prompts = [], images = [], videos = [v], bucket = []\<rparr>"

definition gateway_timeout :: pg_error where
  "gateway_timeout = \<lparr>pg_code = ''504'', pg_message = ''upstream timeout''\<rparr>"

definition empty_db :: db where
  "empty_db = \<lparr>prompts = [], images = [], videos = [], bucket = []\<rparr>"

definition png :: blob where
  "png = \<lparr>blob_size = 2048, blob_type = ''image/png''\<rparr>"

definition three_urls :: http_response where
  "three_urls = \<lparr>r_status = 200, r_text = [],
     r_body = Parsed (Some (map Some [\<lparr>item_url = Some ''https://ark/a.png''\<rparr>,
                            \<lparr>item_url = Some ''https://ark/b.png''\<rparr>,
                            \<lparr>item_url = Some ''https://ark/c.png''\<rparr>]))\<rparr>"

definition null_in_the_middle :: http_response where
  "null_in_the_middle = \<lparr>r_status = 200, r_text = [],
     r_body = Parsed (Some [Some \<lparr>item_url = Some ''https://ark/a.png''\<rparr>, None,
                            Some \<lparr>item_url = Some ''https://ark/c.png''\<rparr>])\<rparr>"

definition one_url :: http_response where
  "one_url = \<lparr>r_status = 200, r_text = [],
     r_body = Parsed (Some [Some \<lparr>item_url = Some ''https://ark/b.png''\<rparr>])\<rparr>"

definition unavailable :: http_response where
  "unavailable = \<lparr>r_status = 503, r_text = ''model overloaded'', r_body = Malformed ''Unexpected token''\<rparr>"

definition null_property_error :: "string \<Rightarrow> string" where
  "null_property_error p =
     ''Cannot read properties of null (reading '' @ [CHR 0x27] @ p @ [CHR 0x27] @ '')''"

text \<open>A world in which everything works but the download of \<open>b.png\<close>, which answers 404.\<close>

definition world_ok :: world where
  "world_ok = \<lparr>w_prompt_fault = None, w_prompt_id = ''p1'', w_now = 100,
     w_api = (\<lambda>_. Responded three_urls),
     w_download = (\<lambda>i u. if u = ''https://ark/b.png'' then Download_response 404 ''Not Found'' png
                          else Download_response 200 ''OK'' png),
     w_date_now = (\<lambda>i. 1700 + i),
     w_upload_fault = (\<lambda>i f. None),
     w_public_url = (\<lambda>f. ''https://storage/images/'' @ f),
     w_image_fault = (\<lambda>i. None),
     w_image_id = (\<lambda>i. ''img'' @ string_of_nat i),
     w_image_now = (\<lambda>i. 101 + i),
     w_type_error = null_property_error\<rparr>"

definition fox :: GenerateImageParams where
  "fox = \<lparr>gp_prompt = js ''A red fox in snow'', gp_model = None, gp_size = Some ''1024x1024'',
          gp_guidance_scale = None, gp_watermark = None, gp_userId = ''u1''\<rparr>"

definition fox_prompt :: prompt_row where
  "fox_prompt = \<lparr>p_id = ''p1'', p_user_id = ''u1'', p_prompt = js ''A red fox in snow'',
     p_created_at = 100, p_updated_at = 100, p_model_used = ''seedream-3-0-t2i-250415'',
     p_type = T_image, p_size = Some ''1024x1024'', p_guidance_scale = Some 3,
     p_language = ''en'', p_status = P_pending\<rparr>"

definition image_a :: image_row where
  "image_a = \<lparr>i_id = ''img0'', i_prompt_id = ''p1'', i_url = ''https://ark/a.png'',
     i_created_at = 101, i_updated_at = 101, i_size = ''1024x1024'', i_b64 = None,
     i_file_size = Some 2048, i_mime_type = Some ''image/png''\<rparr>"

definition image_c :: image_row where
  "image_c = \<lparr>i_id = ''img2'', i_prompt_id = ''p1'', i_url = ''https://ark/c.png'',
     i_created_at = 103, i_updated_at = 103, i_size = ''1024x1024'', i_b64 = None,
     i_file_size = Some 2048, i_mime_type = Some ''image/png''\<rparr>"

definition saved_a :: saved_image where
  "saved_a = \<lparr>si_id = ''img0'', si_url = ''https://ark/a.png'',
     si_bucketUrl = ''https://storage/images/p1_1_1700.png'', si_size = ''1024x1024''\<rparr>"

definition saved_c :: saved_image where
  "saved_c = \<lparr>si_id = ''img2'', si_url = ''https://ark/c.png'',
     si_bucketUrl = ''https://storage/images/p1_3_1702.png'', si_size = ''1024x1024''\<rparr>"

definition history_db :: db where
  "history_db = \<lparr>prompts = [fox_prompt], images = [image_a, image_c], videos = [video_running],
     bucket = []\<rparr>"

definition page_settings :: imageSettings where
  "page_settings = \<lparr>st_model = ''seedream-3-0-t2i-250415'', st_size = ''1024x1024'',
     st_guidance_scale = 3, st_watermark = True\<rparr>"

definition proxy_env :: handler_env where
  "proxy_env = \<lparr>ARK_API_KEY = Some ''key'', modelark = (\<lambda>k r. Responded three_urls),
     destructure_error = ''Cannot destructure property of undefined''\<rparr>"

definition world_one_bad :: world where
  "world_one_bad = world_ok\<lparr>w_api := (\<lambda>_. Responded one_url)\<rparr>"

definition world_unavailable :: world where
  "world_unavailable = world_ok\<lparr>w_api := (\<lambda>_. Responded unavailable)\<rparr>"

text \<open>Three spaces; a no-break space between two spaces.\<close>

definition three_spaces :: js_string where
  "three_spaces = [0x20, 0x20, 0x20]"

definition nbsp_between_spaces :: js_string where
  "nbsp_between_spaces = [0x20, 0xA0, 0x20]"

definition blank :: GenerateImageParams where
  "blank = fox\<lparr>gp_prompt := three_spaces\<rparr>"

definition world_null_item :: world where
  "world_null_item = world_ok\<lparr>w_api := (\<lambda>_. Responded null_in_the_middle)\<rparr>"









definition post_of :: "json_value option \<Rightarrow> handler_request" where
  "post_of p = \<lparr>hq_method = ''POST'',
     hq_body = Some \<lparr>hb_prompt = p, hb_model = None, hb_size = None,
                      hb_guidance_scale = None, hb_watermark = None\<rparr>\<rparr>"

definition post_without_body :: handler_request where
  "post_without_body = \<lparr>hq_method = ''POST'', hq_body = None\<rparr>"

section \<open>Properties of the status poller\<close>

lemma after_query_scheduled: "\<not> scheduled s \<Longrightarrow> \<not> scheduled (after_query r s)"
  by (auto simp: after_query_def clearInterval_def Let_def split: sum.splits option.splits)

lemma after_query_issued: "issued (after_query r s) = issued s"
  by (auto simp: after_query_def clearInterval_def Let_def split: sum.splits option.splits)

lemma after_query_pending: "pending (after_query r s) = pending s"
  by (auto simp: after_query_def clearInterval_def Let_def split: sum.splits option.splits)

lemma after_query_final:
  "is_final (v_status video) \<Longrightarrow> \<not> scheduled (after_query (Inr (Some video)) s)"
  by (auto simp: after_query_def clearInterval_def Let_def)

lemma after_query_error: "\<not> scheduled (after_query (Inl msg) s)"
  by (auto simp: after_query_def clearInterval_def Let_def)

text \<open>Once the interval is cleared nothing schedules it again and no query is issued.\<close>

lemma step_unscheduled:
  "\<not> scheduled s \<Longrightarrow> \<not> scheduled (step s e) \<and> issued (step s e) = issued s"
  by (cases e) (auto simp: after_query_scheduled after_query_issued clearInterval_def)

lemma run_unscheduled:
  "\<not> scheduled s \<Longrightarrow> \<not> scheduled (run s es) \<and> issued (run s es) = issued s"
proof (induction es arbitrary: s)
  case Nil
  then show ?case by simp
next
  case (Cons e es)
  from step_unscheduled[OF Cons.prems, of e]
  have a: "\<not> scheduled (step s e)" and b: "issued (step s e) = issued s" by simp_all
  from Cons.IH[OF a] b show ?case by simp
qed

lemma step_idle: "\<not> scheduled s \<Longrightarrow> pending s = 0 \<Longrightarrow> step s e = s"
  by (cases e) (auto simp: clearInterval_def)

lemma run_idle: "\<not> scheduled s \<Longrightarrow> pending s = 0 \<Longrightarrow> run s es = s"
  by (induction es) (auto simp: step_idle)

lemma get_store: "getVideoById None (store_of v) (v_id v) = Inr (Some v)"
  by (simp add: getVideoById_def getVideoById_response_def single_def store_of_def)

lemma get_store_fault:
  "getVideoById (Some gateway_timeout) d ident = Inl ''Failed to get video: upstream timeout''"
  by (simp add: getVideoById_def getVideoById_response_def single_def gateway_timeout_def)

text \<open>
  C1. Once a settled query shows a final status (succeeded, failed, cancelled), or once
  the caller invokes the cancel function, the interval stays cleared and no status query
  is issued by any later event, whatever the events are. With a store that answers the
  first query with a final status, exactly one callback fires, exactly one query is
  issued and no timer remains.
\<close>

theorem poll_stops_when_final_or_cancelled:
  "(0 < pending s \<and> getVideoById fault d (videoId s) = Inr (Some video) \<and> is_final (v_status video)
      \<longrightarrow> \<not> scheduled (run (step s (Settle fault d)) es)
          \<and> issued (run (step s (Settle fault d)) es) = issued s)
   \<and> (\<not> scheduled (run (step s Cancel) es) \<and> issued (run (step s Cancel) es) = issued s)
   \<and> (getVideoById fault d ident = Inr (Some video) \<and> is_final (v_status video)
      \<longrightarrow> delivered (run (pollVideoStatus ident True vs) (Tick # Settle fault d # es)) = [video]
          \<and> issued (run (pollVideoStatus ident True vs) (Tick # Settle fault d # es)) = 1
          \<and> \<not> scheduled (run (pollVideoStatus ident True vs) (Tick # Settle fault d # es)))"
proof (intro conjI impI)
  assume h: "0 < pending s \<and> getVideoById fault d (videoId s) = Inr (Some video)
    \<and> is_final (v_status video)"
  let ?s' = "step s (Settle fault d)"
  from h have off: "\<not> scheduled ?s'" by (simp add: after_query_final)
  from h have iss: "issued ?s' = issued s" by (simp add: after_query_issued)
  from run_unscheduled[OF off, of es] iss
  show "\<not> scheduled (run ?s' es)" and "issued (run ?s' es) = issued s" by simp_all
next
  have off: "\<not> scheduled (step s Cancel)" by (simp add: clearInterval_def)
  have iss: "issued (step s Cancel) = issued s" by (simp add: clearInterval_def)
  from run_unscheduled[OF off, of es] iss
  show "\<not> scheduled (run (step s Cancel) es)" and "issued (run (step s Cancel) es) = issued s"
    by simp_all
next
  assume h: "getVideoById fault d ident = Inr (Some video) \<and> is_final (v_status video)"
  let ?s2 = "step (step (pollVideoStatus ident True vs) Tick) (Settle fault d)"
  from h have off: "\<not> scheduled ?s2" by (simp add: pollVideoStatus_def after_query_final)
  have pend: "pending ?s2 = 0" by (simp add: pollVideoStatus_def after_query_pending)
  have idle: "run ?s2 es = ?s2" by (rule run_idle[OF off pend])
  from h have del: "delivered ?s2 = [video]"
    by (simp add: pollVideoStatus_def after_query_def clearInterval_def Let_def)
  have iss: "issued ?s2 = 1" by (simp add: pollVideoStatus_def after_query_issued)
  from idle del iss off
  show "delivered (run (pollVideoStatus ident True vs) (Tick # Settle fault d # es)) = [video]"
    and "issued (run (pollVideoStatus ident True vs) (Tick # Settle fault d # es)) = 1"
    and "\<not> scheduled (run (pollVideoStatus ident True vs) (Tick # Settle fault d # es))"
    by simp_all
qed

theorem poll_stops_when_final_or_cancelled_witness:
  "0 < pending (step (pollVideoStatus ''v1'' True []) Tick)
   \<and> getVideoById None (store_of video_done) ''v1'' = Inr (Some video_done)
   \<and> is_final (v_status video_done)
   \<and> issued (run (step (step (pollVideoStatus ''v1'' True []) Tick)
        (Settle None (store_of video_done))) [Tick, Tick]) = 1
   \<and> issued (run (step (step (pollVideoStatus ''v1'' True []) Tick) Cancel) [Tick, Tick]) = 1
   \<and> delivered (run (pollVideoStatus ''v1'' True [])
        [Tick, Settle None (store_of video_done), Tick, Tick]) = [video_done]"
proof -
  let ?s = "step (pollVideoStatus ''v1'' True []) Tick"
  have p: "0 < pending ?s" by (simp add: pollVideoStatus_def)
  have i: "issued ?s = 1" by (simp add: pollVideoStatus_def)
  have v: "videoId ?s = ''v1''" by (simp add: pollVideoStatus_def)
  have g: "getVideoById None (store_of video_done) ''v1'' = Inr (Some video_done)"
    using get_store[of video_done] by (simp add: video_done_def video_running_def)
  have f: "is_final (v_status video_done)" by (simp add: is_final_def video_done_def)
  from poll_stops_when_final_or_cancelled[of ?s None "store_of video_done" video_done
      "[Tick, Tick]" "''v1''" "[]"] p i v g f
  show ?thesis
    by (simp del: step.simps run.simps)
qed

text \<open>
  C2, as the specification states it, fails: after a failed status query the interval is
  cleared, and the ticks that follow issue nothing.
\<close>

theorem poll_query_error_counterexample:
  "\<not> scheduled (run (pollVideoStatus ''v1'' True [])
        [Tick, Settle (Some gateway_timeout) (store_of video_running)])
   \<and> issued (run (pollVideoStatus ''v1'' True [])
        [Tick, Settle (Some gateway_timeout) (store_of video_running), Tick, Tick]) = 1"
  by (simp add: pollVideoStatus_def get_store_fault after_query_def clearInterval_def)

text \<open>
  C2, amended. When the status query of a tick fails, the error is written to the
  console, the callback is not invoked and the local videos are untouched (the failure
  is not reported as the task failing), and the interval is cleared: polling stops, and
  no later event issues a query.
\<close>

theorem poll_query_error_stops_polling:
  "0 < pending s \<and> getVideoById fault d (videoId s) = Inl msg
   \<longrightarrow> console (step s (Settle fault d)) = console s @ [''Failed to poll video status: '' @ msg]
       \<and> delivered (step s (Settle fault d)) = delivered s
       \<and> localVideos (step s (Settle fault d)) = localVideos s
       \<and> \<not> scheduled (run (step s (Settle fault d)) es)
       \<and> issued (run (step s (Settle fault d)) es) = issued s"
proof (intro impI)
  assume h: "0 < pending s \<and> getVideoById fault d (videoId s) = Inl msg"
  let ?s' = "step s (Settle fault d)"
  from h have eq: "?s' = after_query (Inl msg) (s\<lparr>pending := pending s - 1\<rparr>)" by simp
  have off: "\<not> scheduled ?s'" unfolding eq by (rule after_query_error)
  have iss: "issued ?s' = issued s" unfolding eq by (simp add: after_query_issued)
  have rest: "console ?s' = console s @ [''Failed to poll video status: '' @ msg]
      \<and> delivered ?s' = delivered s \<and> localVideos ?s' = localVideos s"
    unfolding eq by (simp add: after_query_def clearInterval_def)
  from run_unscheduled[OF off, of es] iss rest
  show "console ?s' = console s @ [''Failed to poll video status: '' @ msg]
       \<and> delivered ?s' = delivered s \<and> localVideos ?s' = localVideos s
       \<and> \<not> scheduled (run ?s' es) \<and> issued (run ?s' es) = issued s"
    by simp
qed

theorem poll_query_error_stops_polling_witness:
  "0 < pending (step (pollVideoStatus ''v1'' True []) Tick)
   \<and> getVideoById (Some gateway_timeout) (store_of video_running) ''v1''
       = Inl ''Failed to get video: upstream timeout''
   \<and> console (step (step (pollVideoStatus ''v1'' True []) Tick)
        (Settle (Some gateway_timeout) (store_of video_running)))
       = [''Failed to poll video status: Failed to get video: upstream timeout'']
   \<and> issued (run (step (step (pollVideoStatus ''v1'' True []) Tick)
        (Settle (Some gateway_timeout) (store_of video_running))) [Tick, Tick]) = 1"
proof -
  let ?s = "step (pollVideoStatus ''v1'' True []) Tick"
  have p: "0 < pending ?s" by (simp add: pollVideoStatus_def)
  have i: "issued ?s = 1" by (simp add: pollVideoStatus_def)
  have c: "console ?s = []" by (simp add: pollVideoStatus_def)
  have g: "getVideoById (Some gateway_timeout) (store_of video_running) (videoId ?s)
      = Inl ''Failed to get video: upstream timeout''"
    by (rule get_store_fault)
  from poll_query_error_stops_polling[of ?s "Some gateway_timeout" "store_of video_running"
      "''Failed to get video: upstream timeout''" "[Tick, Tick]"] p i c g
  show ?thesis
    by (simp del: step.simps run.simps add: get_store_fault)
qed

text \<open>
  C3, as the specification states it, fails: two ticks that read the same row, with the
  same status, invoke the callback twice.
\<close>

theorem poll_unchanged_status_counterexample:
  "delivered (run (pollVideoStatus ''v1'' True [])
      [Tick, Settle None (store_of video_running), Tick, Settle None (store_of video_running)])
   = [video_running, video_running]"
proof -
  have g: "getVideoById None (store_of video_running) ''v1'' = Inr (Some video_running)"
    using get_store[of video_running] by (simp add: video_running_def)
  have nf: "\<not> is_final (v_status video_running)" by (simp add: is_final_def video_running_def)
  show ?thesis
    by (simp add: pollVideoStatus_def g nf after_query_def clearInterval_def Let_def)
qed

text \<open>
  C3, amended. On every tick whose query returns a row, the callback (when one was
  given) is invoked with that row, whether or not its status differs from the one seen
  before; it is not invoked when the query finds no row or fails.
\<close>

theorem poll_callback_on_every_row:
  "0 < pending s \<longrightarrow>
     (getVideoById fault d (videoId s) = Inr (Some video) \<and> hasCallback s
        \<longrightarrow> delivered (step s (Settle fault d)) = delivered s @ [video])
   \<and> (getVideoById fault d (videoId s) = Inr (Some video) \<and> \<not> hasCallback s
        \<longrightarrow> delivered (step s (Settle fault d)) = delivered s)
   \<and> (getVideoById fault d (videoId s) = Inr None
        \<longrightarrow> delivered (step s (Settle fault d)) = delivered s)
   \<and> (getVideoById fault d (videoId s) = Inl msg
        \<longrightarrow> delivered (step s (Settle fault d)) = delivered s)"
  by (auto simp: after_query_def clearInterval_def Let_def)

theorem poll_callback_on_every_row_witness:
  "0 < pending (step (step (step (pollVideoStatus ''v1'' True []) Tick)
        (Settle None (store_of video_running))) Tick)
   \<and> getVideoById None (store_of video_running) ''v1'' = Inr (Some video_running)
   \<and> delivered (run (pollVideoStatus ''v1'' True [])
        [Tick, Settle None (store_of video_running), Tick, Settle None (store_of video_running)])
      = delivered (run (pollVideoStatus ''v1'' True [])
        [Tick, Settle None (store_of video_running), Tick]) @ [video_running]"
proof -
  let ?s = "step (step (step (pollVideoStatus ''v1'' True []) Tick)
        (Settle None (store_of video_running))) Tick"
  have g: "getVideoById None (store_of video_running) ''v1'' = Inr (Some video_running)"
    using get_store[of video_running] by (simp add: video_running_def)
  have nf: "\<not> is_final (v_status video_running)" by (simp add: is_final_def video_running_def)
  have p: "0 < pending ?s"
    by (simp add: pollVideoStatus_def g nf after_query_def clearInterval_def Let_def)
  have v: "videoId ?s = ''v1''"
    by (simp add: pollVideoStatus_def g nf after_query_def clearInterval_def Let_def)
  have c: "hasCallback ?s"
    by (simp add: pollVideoStatus_def g nf after_query_def clearInterval_def Let_def)
  from poll_callback_on_every_row[of ?s None "store_of video_running" video_running] p v c g
  have "delivered (step ?s (Settle None (store_of video_running)))
      = delivered ?s @ [video_running]"
    by (simp del: step.simps)
  with p g show ?thesis by (simp del: step.simps)
qed

section \<open>Properties of the image pipeline\<close>



lemma process_item_frame:
  "process_item w pr sz i it d = (r, d') \<Longrightarrow>
     prompts d' = prompts d \<and> videos d' = videos d \<and> set (bucket d) \<subseteq> set (bucket d')"
  by (auto simp: process_item_def uploadImageToSupabase_def insert_image_def Let_def
      split: option.splits sum.splits prod.splits if_splits)

lemma process_item_none:
  "process_item w pr sz i it d = (None, d') \<Longrightarrow> images d' = images d"
  by (auto simp: process_item_def uploadImageToSupabase_def insert_image_def Let_def
      split: option.splits sum.splits prod.splits if_splits)

lemma process_item_some:
  "process_item w pr sz i it d = (Some s, d') \<Longrightarrow>
     (\<exists>row. images d' = images d @ [row] \<and> row_of_saved pr sz row s)
     \<and> transferred w pr d' i s \<and> item_url it = Some (si_url s)"
  by (auto simp: process_item_def uploadImageToSupabase_def insert_image_def Let_def
      row_of_saved_def transferred_def
      split: option.splits sum.splits prod.splits if_splits)

lemma transferred_mono:
  "transferred w pr d i s \<Longrightarrow> set (bucket d) \<subseteq> set (bucket d') \<Longrightarrow> transferred w pr d' i s"
  by (auto simp: transferred_def split: sum.splits)


lemma process_images_error:
  "fst (fst (process_images w pr sz k items saved d))
     = (if None \<in> set items then Some (w_type_error w ''url'') else None)"
proof (induction items arbitrary: k saved d)
  case Nil
  then show ?case by simp
next
  case (Cons x rest)
  show ?case
  proof (cases x)
    case None
    then show ?thesis by simp
  next
    case (Some it)
    obtain r d' where step: "process_item w pr sz k it d = (r, d')"
      by (cases "process_item w pr sz k it d")
    show ?thesis
    proof (cases r)
      case None
      with step Some Cons.IH[of "Suc k" saved d'] show ?thesis by simp
    next
      case (Some s)
      with step \<open>x = Some it\<close> Cons.IH[of "Suc k" "saved @ [s]" d'] show ?thesis by simp
    qed
  qed
qed

lemma provenance_iff:
  "provenance w pr d k items s
     = (\<exists>i<length items. (\<exists>it. items ! i = Some it \<and> item_url it = Some (si_url s))
          \<and> transferred w pr d (k + i) s)"
  by (auto simp: provenance_def list_ex_iff split: option.splits)

lemma provenance_Cons:
  assumes "provenance w pr d (Suc k) rest s"
  shows "provenance w pr d k (x # rest) s"
proof -
  from assms obtain i where i: "i < length rest"
    "\<exists>it. rest ! i = Some it \<and> item_url it = Some (si_url s)"
    "transferred w pr d (Suc k + i) s" unfolding provenance_iff by blast
  then have "Suc i < length (x # rest)
      \<and> (\<exists>it. (x # rest) ! Suc i = Some it \<and> item_url it = Some (si_url s))
      \<and> transferred w pr d (k + Suc i) s" by simp
  then show ?thesis unfolding provenance_iff by blast
qed

lemma provenance_head:
  "item_url it = Some (si_url s) \<Longrightarrow> transferred w pr d k s
     \<Longrightarrow> provenance w pr d k (Some it # rest) s"
  unfolding provenance_iff by (rule exI[of _ 0]) simp

lemma process_images_rows:
  "process_images w pr sz k items saved d = ((err, saved'), d') \<Longrightarrow>
     \<exists>rows news. saved' = saved @ news \<and> images d' = images d @ rows
       \<and> list_all2 (row_of_saved pr sz) rows news
       \<and> (\<forall>s\<in>set news. provenance w pr d' k items s)
       \<and> prompts d' = prompts d \<and> videos d' = videos d
       \<and> set (bucket d) \<subseteq> set (bucket d')"
proof (induction items arbitrary: k saved d)
  case Nil
  then show ?case by simp
next
  case (Cons x rest)
  show ?case
  proof (cases x)
    case None
    with Cons.prems show ?thesis by simp
  next
    case (Some it)
    note x = Some
    obtain r d1 where step: "process_item w pr sz k it d = (r, d1)"
      by (cases "process_item w pr sz k it d")
    note frame = process_item_frame[OF step]
    show ?thesis
    proof (cases r)
      case None
      with step x Cons.prems
      have run: "process_images w pr sz (Suc k) rest saved d1 = ((err, saved'), d')" by simp
      from Cons.IH[OF run] obtain rows news where
        ih: "saved' = saved @ news" "images d' = images d1 @ rows"
          "list_all2 (row_of_saved pr sz) rows news"
          "\<forall>s\<in>set news. provenance w pr d' (Suc k) rest s"
          "prompts d' = prompts d1" "videos d' = videos d1" "set (bucket d1) \<subseteq> set (bucket d')"
        by blast
      from step None have same: "images d1 = images d" by (simp add: process_item_none)
      from ih(4) have prov: "\<forall>s\<in>set news. provenance w pr d' k (x # rest) s"
        by (blast intro: provenance_Cons)
      from ih same frame prov show ?thesis by auto
    next
      case (Some s)
      with step x Cons.prems
      have run: "process_images w pr sz (Suc k) rest (saved @ [s]) d1 = ((err, saved'), d')"
        by simp
      from Cons.IH[OF run] obtain rows news where
        ih: "saved' = (saved @ [s]) @ news" "images d' = images d1 @ rows"
          "list_all2 (row_of_saved pr sz) rows news"
          "\<forall>s\<in>set news. provenance w pr d' (Suc k) rest s"
          "prompts d' = prompts d1" "videos d' = videos d1" "set (bucket d1) \<subseteq> set (bucket d')"
        by blast
      from step Some process_item_some[of w pr sz k it d s d1] obtain row where
        row: "images d1 = images d @ [row]" "row_of_saved pr sz row s"
          "transferred w pr d1 k s" "item_url it = Some (si_url s)"
        by blast
      from row(3) ih(7) have "transferred w pr d' k s" by (rule transferred_mono)
      with row(4) x have ps: "provenance w pr d' k (x # rest) s"
        by (simp add: provenance_head)
      from ih(4) have prov: "\<forall>y\<in>set news. provenance w pr d' k (x # rest) y"
        by (blast intro: provenance_Cons)
      have a: "saved' = saved @ (s # news)" using ih(1) by simp
      have b: "images d' = images d @ (row # rows)" using ih(2) row(1) by simp
      have c: "list_all2 (row_of_saved pr sz) (row # rows) (s # news)" using ih(3) row(2) by simp
      have e: "\<forall>y\<in>set (s # news). provenance w pr d' k (x # rest) y" using ps prov by simp
      from a b c e ih(5,6,7) frame show ?thesis
        by (intro exI[of _ "row # rows"] exI[of _ "s # news"]) auto
    qed
  qed
qed

lemma insert_prompt_ok:
  "insert_accepted w params \<Longrightarrow>
     insert_prompt w (promptData params) d
       = (Inr (prompt_row_of w params), d\<lparr>prompts := prompts d @ [prompt_row_of w params]\<rparr>)"
  by (simp add: insert_accepted_def insert_prompt_def promptData_def prompt_row_of_def Let_def)

lemma insert_prompt_refused:
  "\<not> insert_accepted w params \<Longrightarrow>
     \<exists>e. insert_prompt w (promptData params) d = (Inl e, d)"
  by (auto simp: insert_accepted_def insert_prompt_def promptData_def split: option.splits)

lemma generateImage_refused:
  "\<not> insert_accepted w params \<Longrightarrow>
     \<exists>msg. generateImage w params d = (Inl msg, d)"
proof -
  assume "\<not> insert_accepted w params"
  from insert_prompt_refused[OF this, of d] obtain e where
    "insert_prompt w (promptData params) d = (Inl e, d)" by blast
  then show ?thesis by (simp add: generateImage_def)
qed

lemma generateImage_rejected:
  "insert_accepted w params \<Longrightarrow> w_api w (request_body params) = Rejected msg \<Longrightarrow>
     generateImage w params d = (Inl msg, d\<lparr>prompts := prompts d @ [prompt_row_of w params]\<rparr>)"
  by (simp add: generateImage_def insert_prompt_ok)

lemma generateImage_not_ok:
  "insert_accepted w params \<Longrightarrow> w_api w (request_body params) = Responded r \<Longrightarrow>
   \<not> response_ok (r_status r) \<Longrightarrow>
     generateImage w params d
       = (Inl (''Server error: '' @ string_of_nat (r_status r) @ '' - '' @ r_text r),
          d\<lparr>prompts := prompts d @ [prompt_row_of w params]\<rparr>)"
  by (simp add: generateImage_def insert_prompt_ok)

lemma generateImage_malformed:
  "insert_accepted w params \<Longrightarrow> w_api w (request_body params) = Responded r \<Longrightarrow>
   response_ok (r_status r) \<Longrightarrow> r_body r = Malformed msg \<Longrightarrow>
     generateImage w params d = (Inl msg, d\<lparr>prompts := prompts d @ [prompt_row_of w params]\<rparr>)"
  by (simp add: generateImage_def insert_prompt_ok)

lemma generateImage_null_body:
  "insert_accepted w params \<Longrightarrow> w_api w (request_body params) = Responded r \<Longrightarrow>
   response_ok (r_status r) \<Longrightarrow> r_body r = Null_body \<Longrightarrow>
     generateImage w params d
       = (Inl (w_type_error w ''data''), d\<lparr>prompts := prompts d @ [prompt_row_of w params]\<rparr>)"
  by (simp add: generateImage_def insert_prompt_ok)

lemma generateImage_not_a_list:
  "insert_accepted w params \<Longrightarrow> w_api w (request_body params) = Responded r \<Longrightarrow>
   response_ok (r_status r) \<Longrightarrow> r_body r = Not_a_list \<Longrightarrow>
     generateImage w params d
       = (Inl ''No images were successfully processed and saved'',
          d\<lparr>prompts := prompts d @ [prompt_row_of w params]\<rparr>)"
  by (simp add: generateImage_def insert_prompt_ok)

lemma generateImage_no_data:
  "insert_accepted w params \<Longrightarrow> w_api w (request_body params) = Responded r \<Longrightarrow>
   response_ok (r_status r) \<Longrightarrow> r_body r = Parsed None \<or> r_body r = Parsed (Some []) \<Longrightarrow>
     generateImage w params d
       = (Inl ''No image data received from API'',
          d\<lparr>prompts := prompts d @ [prompt_row_of w params]\<rparr>)"
  by (auto simp: generateImage_def insert_prompt_ok)

lemma generateImage_items:
  "insert_accepted w params \<Longrightarrow> w_api w (request_body params) = Responded r \<Longrightarrow>
   response_ok (r_status r) \<Longrightarrow> r_body r = Parsed (Some items) \<Longrightarrow> items \<noteq> [] \<Longrightarrow>
   process_images w (prompt_row_of w params) (size_of params) 0 items []
       (d\<lparr>prompts := prompts d @ [prompt_row_of w params]\<rparr>) = ((err, saved), d2) \<Longrightarrow>
     generateImage w params d
       = (case err of
            Some msg \<Rightarrow> (Inl msg, d2)
          | None \<Rightarrow>
              if saved = [] then (Inl ''No images were successfully processed and saved'', d2)
              else (Inr \<lparr>promptId = p_id (prompt_row_of w params), result_images = saved\<rparr>, d2))"
  by (simp add: generateImage_def insert_prompt_ok split: option.splits)

lemmas run_defs =
  generateImage_def insert_prompt_def promptData_def request_body_def model_of_def
  size_of_def guidance_scale_of_def watermark_of_def world_ok_def fox_def empty_db_def
  response_ok_def process_item_def downloadImageAsBlob_def uploadImageToSupabase_def
  insert_image_def file_name_def string_of_nat.simps png_def fox_prompt_def js_def Let_def

lemma fox_run:
  "generateImage world_ok fox empty_db
     = (Inr \<lparr>promptId = ''p1'', result_images = [saved_a, saved_c]\<rparr>,
        \<lparr>prompts = [fox_prompt], images = [image_a, image_c], videos = [],
         bucket = [(''p1_1_1700.png'', png), (''p1_3_1702.png'', png)]\<rparr>)"
  by (simp add: run_defs three_urls_def image_a_def image_c_def saved_a_def saved_c_def)

lemma one_bad_run:
  "generateImage world_one_bad fox empty_db
     = (Inl ''No images were successfully processed and saved'',
        \<lparr>prompts = [fox_prompt], images = [], videos = [], bucket = []\<rparr>)"
  by (simp add: run_defs world_one_bad_def one_url_def)

lemma unavailable_run:
  "generateImage world_unavailable fox empty_db
     = (Inl ''Server error: 503 - model overloaded'',
        \<lparr>prompts = [fox_prompt], images = [], videos = [], bucket = []\<rparr>)"
  by (simp add: run_defs world_unavailable_def unavailable_def)

lemma blank_run:
  "generateImage world_ok blank empty_db
     = (Inr \<lparr>promptId = ''p1'', result_images = [saved_a, saved_c]\<rparr>,
        \<lparr>prompts = [fox_prompt\<lparr>p_prompt := three_spaces\<rparr>], images = [image_a, image_c],
         videos = [],
         bucket = [(''p1_1_1700.png'', png), (''p1_3_1702.png'', png)]\<rparr>)"
  by (simp add: run_defs blank_def three_spaces_def three_urls_def image_a_def image_c_def
      saved_a_def saved_c_def)

lemma null_item_run:
  "generateImage world_null_item fox empty_db
     = (Inl (null_property_error ''url''),
        \<lparr>prompts = [fox_prompt], images = [image_a], videos = [],
         bucket = [(''p1_1_1700.png'', png)]\<rparr>)"
  by (simp add: run_defs world_null_item_def null_in_the_middle_def image_a_def)

lemma generateImage_prompts:
  "insert_accepted w params \<Longrightarrow>
     prompts (snd (generateImage w params d)) = prompts d @ [prompt_row_of w params]"
proof -
  assume nf: "insert_accepted w params"
  let ?d1 = "d\<lparr>prompts := prompts d @ [prompt_row_of w params]\<rparr>"
  show ?thesis
  proof (cases "w_api w (request_body params)")
    case (Rejected msg)
    with nf show ?thesis by (simp add: generateImage_rejected)
  next
    case (Responded r)
    show ?thesis
    proof (cases "response_ok (r_status r)")
      case False
      with nf Responded show ?thesis by (simp add: generateImage_not_ok)
    next
      case True
      show ?thesis
      proof (cases "r_body r")
        case (Malformed msg)
        with nf Responded True show ?thesis by (simp add: generateImage_malformed)
      next
        case Null_body
        with nf Responded True show ?thesis by (simp add: generateImage_null_body)
      next
        case Not_a_list
        with nf Responded True show ?thesis by (simp add: generateImage_not_a_list)
      next
        case (Parsed data)
        show ?thesis
        proof (cases "data = None \<or> data = Some []")
          case True
          with Parsed have "r_body r = Parsed None \<or> r_body r = Parsed (Some [])" by auto
          with nf Responded \<open>response_ok (r_status r)\<close> show ?thesis
            by (simp add: generateImage_no_data)
        next
          case False
          then obtain items where items: "data = Some items" "items \<noteq> []" by auto
          obtain err saved d2 where run:
            "process_images w (prompt_row_of w params) (size_of params) 0 items [] ?d1
               = ((err, saved), d2)"
            by (cases "process_images w (prompt_row_of w params) (size_of params) 0 items [] ?d1")
              auto
          from process_images_rows[OF run] have "prompts d2 = prompts ?d1" by blast
          moreover from Parsed items(1) have body: "r_body r = Parsed (Some items)" by simp
          ultimately show ?thesis
            using generateImage_items[OF nf Responded True body items(2) run]
            by (simp split: option.splits)
        qed
      qed
    qed
  qed
qed

lemma generateImage_images:
  "\<exists>rows news. images (snd (generateImage w params d)) = images d @ rows
     \<and> list_all2 (row_of_saved (prompt_row_of w params) (size_of params)) rows news
     \<and> (news = [] \<or> (\<exists>r items. w_api w (request_body params) = Responded r
           \<and> r_body r = Parsed (Some items)
           \<and> (\<forall>s\<in>set news. provenance w (prompt_row_of w params)
                  (snd (generateImage w params d)) 0 items s)))
     \<and> (rows = [] \<or> insert_accepted w params)
     \<and> (case fst (generateImage w params d) of
          Inl _ \<Rightarrow> True
        | Inr res \<Rightarrow> result_images res = news \<and> promptId res = p_id (prompt_row_of w params))"
proof (cases "insert_accepted w params")
  case False
  from generateImage_refused[OF this, of d] obtain msg where
    "generateImage w params d = (Inl msg, d)" by blast
  then show ?thesis by (intro exI[of _ "[]"]) simp
next
  case True
  note nf = True
  let ?d1 = "d\<lparr>prompts := prompts d @ [prompt_row_of w params]\<rparr>"
  have trivial: ?thesis if "generateImage w params d = (Inl msg, ?d1)" for msg
    using that by (intro exI[of _ "[]"]) simp
  show ?thesis
  proof (cases "w_api w (request_body params)")
    case (Rejected msg)
    with nf show ?thesis by (intro trivial) (rule generateImage_rejected)
  next
    case (Responded r)
    show ?thesis
    proof (cases "response_ok (r_status r)")
      case False
      with nf Responded show ?thesis by (intro trivial) (rule generateImage_not_ok)
    next
      case True
      show ?thesis
      proof (cases "r_body r")
        case (Malformed msg)
        with nf Responded True show ?thesis by (intro trivial) (rule generateImage_malformed)
      next
        case Null_body
        with nf Responded True show ?thesis by (intro trivial) (rule generateImage_null_body)
      next
        case Not_a_list
        with nf Responded True show ?thesis by (intro trivial) (rule generateImage_not_a_list)
      next
        case (Parsed data)
        show ?thesis
        proof (cases "data = None \<or> data = Some []")
          case True
          with Parsed have "r_body r = Parsed None \<or> r_body r = Parsed (Some [])" by auto
          with nf Responded \<open>response_ok (r_status r)\<close> show ?thesis
            by (intro trivial) (rule generateImage_no_data)
        next
          case False
          then obtain items where items: "data = Some items" "items \<noteq> []" by auto
          obtain err saved d2 where run:
            "process_images w (prompt_row_of w params) (size_of params) 0 items [] ?d1
               = ((err, saved), d2)"
            by (cases "process_images w (prompt_row_of w params) (size_of params) 0 items [] ?d1")
              auto
          from process_images_rows[OF run] obtain rows news where
            inv: "saved = [] @ news" "images d2 = images ?d1 @ rows"
              "list_all2 (row_of_saved (prompt_row_of w params) (size_of params)) rows news"
              "\<forall>s\<in>set news. provenance w (prompt_row_of w params) d2 0 items s"
            by blast
          from Parsed items(1) have body: "r_body r = Parsed (Some items)" by simp
          note gen = generateImage_items[OF nf Responded True body items(2) run]
          from gen have d2: "snd (generateImage w params d) = d2"
            by (simp split: option.splits if_splits)
          from gen inv(1) have res: "case fst (generateImage w params d) of
              Inl _ \<Rightarrow> True
            | Inr res \<Rightarrow> result_images res = news \<and> promptId res = p_id (prompt_row_of w params)"
            by (simp split: option.splits if_splits)
          from d2 inv Responded body nf res show ?thesis
            by (intro exI[of _ rows] exI[of _ news]) auto
        qed
      qed
    qed
  qed
qed

lemma fox_accepted: "insert_accepted w fox = (w_prompt_fault w = None)"
  by (simp add: insert_accepted_def fox_def guidance_scale_of_def js_def)

text \<open>
  C4, as the specification states it, fails: when the only url of the answer cannot be
  downloaded the call fails and stores no image row, but the prompt row keeps the status
  it was inserted with.
\<close>

theorem all_items_fail_counterexample:
  "fst (generateImage world_one_bad fox empty_db)
     = Inl ''No images were successfully processed and saved''
   \<and> images (snd (generateImage world_one_bad fox empty_db)) = []
   \<and> map p_status (prompts (snd (generateImage world_one_bad fox empty_db))) = [P_pending]"
  by (simp add: one_bad_run fox_prompt_def)

text \<open>
  C4, amended. When the prompt row was inserted, the generation endpoint answers with a
  2xx status, and no image row is stored, \<open>generateImage\<close> throws and stores no image
  row. The error is \<open>No image data received from API\<close> when the \<open>data\<close> of the answer is
  absent, taken for false or an empty list; it is \<open>No images were successfully processed
  and saved\<close> when \<open>data\<close> is a list without a \<open>null\<close> element or a value that is not a
  list; it is the engine's \<open>TypeError\<close> when the body is \<open>null\<close> or the list has a
  \<open>null\<close> element (its url is read outside the per-item \<open>try\<close>); it is the parser's
  error when the body is malformed. The prompt row stays as it was inserted, with status
  pending: \<open>generateImage\<close> never updates a prompt.
\<close>

theorem no_output_fails_without_rows:
  "insert_accepted w params \<and> w_api w (request_body params) = Responded r
   \<and> response_ok (r_status r)
   \<and> images (snd (generateImage w params d)) = images d
   \<longrightarrow> fst (generateImage w params d) = Inl (no_output_message w (r_body r))
       \<and> prompts (snd (generateImage w params d)) = prompts d @ [prompt_row_of w params]
       \<and> p_status (prompt_row_of w params) = P_pending"
proof (intro impI)
  assume h: "insert_accepted w params \<and> w_api w (request_body params) = Responded r
   \<and> response_ok (r_status r)
   \<and> images (snd (generateImage w params d)) = images d"
  then have nf: "insert_accepted w params" and api: "w_api w (request_body params) = Responded r"
    and ok: "response_ok (r_status r)"
    and same: "images (snd (generateImage w params d)) = images d" by simp_all
  let ?d1 = "d\<lparr>prompts := prompts d @ [prompt_row_of w params]\<rparr>"
  have msg: "fst (generateImage w params d) = Inl (no_output_message w (r_body r))"
  proof (cases "r_body r")
    case (Malformed m)
    with nf api ok show ?thesis by (simp add: generateImage_malformed no_output_message_def)
  next
    case Null_body
    with nf api ok show ?thesis by (simp add: generateImage_null_body no_output_message_def)
  next
    case Not_a_list
    with nf api ok show ?thesis by (simp add: generateImage_not_a_list no_output_message_def)
  next
    case (Parsed data)
    note body = Parsed
    show ?thesis
    proof (cases "data = None \<or> data = Some []")
      case True
      with body have "r_body r = Parsed None \<or> r_body r = Parsed (Some [])" by auto
      with nf api ok
      have "fst (generateImage w params d) = Inl ''No image data received from API''"
        by (simp add: generateImage_no_data)
      with True body show ?thesis by (auto simp: no_output_message_def)
    next
      case False
      then obtain items where items: "data = Some items" "items \<noteq> []" by auto
      obtain err saved d2 where run:
        "process_images w (prompt_row_of w params) (size_of params) 0 items [] ?d1
           = ((err, saved), d2)"
        by (cases "process_images w (prompt_row_of w params) (size_of params) 0 items [] ?d1")
          auto
      from process_images_error[of w "prompt_row_of w params" "size_of params" 0 items "[]" ?d1]
        run
      have err: "err = (if None \<in> set items then Some (w_type_error w ''url'') else None)"
        by simp
      from process_images_rows[OF run] obtain rows news where
        inv: "saved = [] @ news" "images d2 = images ?d1 @ rows"
          "list_all2 (row_of_saved (prompt_row_of w params) (size_of params)) rows news"
        by blast
      from body items(1) have body': "r_body r = Parsed (Some items)" by simp
      note gen = generateImage_items[OF nf api ok body' items(2) run]
      from gen have "snd (generateImage w params d) = d2"
        by (simp split: option.splits if_splits)
      with same inv(2) have "rows = []" by simp
      with inv have "saved = []" by simp
      with gen err items body' show ?thesis by (simp add: no_output_message_def)
    qed
  qed
  from msg generateImage_prompts[OF nf, of d]
  show "fst (generateImage w params d) = Inl (no_output_message w (r_body r))
       \<and> prompts (snd (generateImage w params d)) = prompts d @ [prompt_row_of w params]
       \<and> p_status (prompt_row_of w params) = P_pending"
    by (simp add: prompt_row_of_def)
qed

theorem no_output_fails_without_rows_witness:
  "insert_accepted world_one_bad fox
   \<and> w_api world_one_bad (request_body fox) = Responded one_url
   \<and> response_ok (r_status one_url)
   \<and> images (snd (generateImage world_one_bad fox empty_db)) = images empty_db
   \<and> fst (generateImage world_one_bad fox empty_db)
       = Inl ''No images were successfully processed and saved''
   \<and> prompts (snd (generateImage world_one_bad fox empty_db)) = [prompt_row_of world_one_bad fox]"
proof -
  have a: "insert_accepted world_one_bad fox"
    by (simp add: fox_accepted world_one_bad_def world_ok_def)
  have b: "w_api world_one_bad (request_body fox) = Responded one_url"
    by (simp add: world_one_bad_def)
  have c: "response_ok (r_status one_url)" by (simp add: one_url_def response_ok_def)
  have e: "no_output_message world_one_bad (r_body one_url)
      = ''No images were successfully processed and saved''"
    by (simp add: one_url_def no_output_message_def)
  have f: "images (snd (generateImage world_one_bad fox empty_db)) = images empty_db"
    unfolding one_bad_run by (simp add: empty_db_def)
  from no_output_fails_without_rows[of world_one_bad fox one_url empty_db] a b c e f
  have g: "prompts (snd (generateImage world_one_bad fox empty_db))
      = prompts empty_db @ [prompt_row_of world_one_bad fox]"
    and m: "fst (generateImage world_one_bad fox empty_db)
       = Inl ''No images were successfully processed and saved''" by simp_all
  have "prompts empty_db = []" by (simp add: empty_db_def)
  with g m a b c f show ?thesis by simp
qed

text \<open>
  C5, as the specification states it, fails: after a 503 of the generation endpoint the
  call throws, and the prompt row keeps the status it was inserted with.
\<close>

theorem api_error_counterexample:
  "fst (generateImage world_unavailable fox empty_db) = Inl ''Server error: 503 - model overloaded''
   \<and> map p_status (prompts (snd (generateImage world_unavailable fox empty_db))) = [P_pending]"
  by (simp add: unavailable_run fox_prompt_def)

text \<open>
  C5, amended. When the prompt row was inserted and the generation endpoint answers with
  a status outside 200..299, \<open>generateImage\<close> throws an error whose message is
  \<open>Server error: <status> - <body text>\<close>, the upstream status and body verbatim; when
  the body of a successful answer cannot be parsed it throws the parser's error. In both
  cases the prompt row already created stays as inserted, with status pending, and no
  image row is stored.
\<close>

theorem api_error_is_propagated:
  "insert_accepted w params \<and> w_api w (request_body params) = Responded r
   \<longrightarrow> (\<not> response_ok (r_status r)
          \<longrightarrow> generateImage w params d
               = (Inl (''Server error: '' @ string_of_nat (r_status r) @ '' - '' @ r_text r),
                  d\<lparr>prompts := prompts d @ [prompt_row_of w params]\<rparr>))
       \<and> (response_ok (r_status r) \<and> r_body r = Malformed msg
          \<longrightarrow> generateImage w params d
               = (Inl msg, d\<lparr>prompts := prompts d @ [prompt_row_of w params]\<rparr>))
       \<and> p_status (prompt_row_of w params) = P_pending"
  by (simp add: generateImage_not_ok generateImage_malformed prompt_row_of_def)

theorem api_error_is_propagated_witness:
  "insert_accepted world_unavailable fox
   \<and> w_api world_unavailable (request_body fox) = Responded unavailable
   \<and> \<not> response_ok (r_status unavailable)
   \<and> generateImage world_unavailable fox empty_db
       = (Inl ''Server error: 503 - model overloaded'',
          empty_db\<lparr>prompts := [prompt_row_of world_unavailable fox]\<rparr>)"
proof -
  have a: "insert_accepted world_unavailable fox"
    by (simp add: fox_accepted world_unavailable_def world_ok_def)
  have b: "w_api world_unavailable (request_body fox) = Responded unavailable"
    by (simp add: world_unavailable_def)
  have c: "\<not> response_ok (r_status unavailable)" by (simp add: unavailable_def response_ok_def)
  have t: "''Server error: '' @ string_of_nat (r_status unavailable) @ '' - '' @ r_text unavailable
      = ''Server error: 503 - model overloaded''"
    by (simp add: unavailable_def string_of_nat.simps)
  from api_error_is_propagated[of world_unavailable fox unavailable empty_db] a b c t
  have g: "generateImage world_unavailable fox empty_db
      = (Inl ''Server error: 503 - model overloaded'',
         empty_db\<lparr>prompts := prompts empty_db @ [prompt_row_of world_unavailable fox]\<rparr>)"
    by simp
  have "prompts empty_db = []" by (simp add: empty_db_def)
  with g a b c show ?thesis by simp
qed




text \<open>
  C7, as the specification states it, fails: the stored image rows hold the provider's
  url and no column holds the url of the uploaded copy, which exists only in the value
  the call returns.
\<close>

theorem image_row_owned_url_counterexample:
  "fst (generateImage world_ok fox empty_db)
     = Inr \<lparr>promptId = ''p1'', result_images = [saved_a, saved_c]\<rparr>
   \<and> images (snd (generateImage world_ok fox empty_db)) = [image_a, image_c]
   \<and> si_bucketUrl saved_a \<notin> set (row_strings image_a)
   \<and> si_bucketUrl saved_c \<notin> set (row_strings image_c)"
  by (simp add: fox_run row_strings_def image_a_def image_c_def saved_a_def saved_c_def)

text \<open>
  C7, amended. Every image row stored by the pipeline, whether the call returns or
  throws, references the prompt row the call created, which is in the database, and
  holds the provider's url, which is not empty; the row has no column for the owned url.
  The owned url exists only in the entry the loop builds for the row, returned as
  \<open>bucketUrl\<close> when the call returns: it is set once, when the entry is built, as the
  public url of the object uploaded for that item, after the item's download and upload
  succeeded, the object being in the bucket.
\<close>

theorem image_rows_reference_prompt:
  "\<exists>rows news. images (snd (generateImage w params d)) = images d @ rows
     \<and> list_all2 (row_of_saved (prompt_row_of w params) (size_of params)) rows news
     \<and> (news = [] \<or> (\<exists>r items. w_api w (request_body params) = Responded r
           \<and> r_body r = Parsed (Some items)
           \<and> (\<forall>s\<in>set news. provenance w (prompt_row_of w params)
                  (snd (generateImage w params d)) 0 items s)))
     \<and> (rows = [] \<or> prompts (snd (generateImage w params d)) = prompts d @ [prompt_row_of w params])
     \<and> (\<forall>res. fst (generateImage w params d) = Inr res
           \<longrightarrow> result_images res = news \<and> promptId res = p_id (prompt_row_of w params))"
proof -
  from generateImage_images[of w params d] obtain rows news where
    a: "images (snd (generateImage w params d)) = images d @ rows"
    and b: "list_all2 (row_of_saved (prompt_row_of w params) (size_of params)) rows news"
    and c: "news = [] \<or> (\<exists>r items. w_api w (request_body params) = Responded r
           \<and> r_body r = Parsed (Some items)
           \<and> (\<forall>s\<in>set news. provenance w (prompt_row_of w params)
                  (snd (generateImage w params d)) 0 items s))"
    and e: "rows = [] \<or> insert_accepted w params"
    and f: "case fst (generateImage w params d) of
          Inl _ \<Rightarrow> True
        | Inr res \<Rightarrow> result_images res = news \<and> promptId res = p_id (prompt_row_of w params)"
    by blast
  from e have e': "rows = [] \<or> prompts (snd (generateImage w params d))
      = prompts d @ [prompt_row_of w params]"
    by (auto dest: generateImage_prompts)
  from f have f': "\<forall>res. fst (generateImage w params d) = Inr res
           \<longrightarrow> result_images res = news \<and> promptId res = p_id (prompt_row_of w params)"
    by (auto split: sum.splits)
  from a b c e' f' show ?thesis by blast
qed

theorem image_rows_reference_prompt_witness:
  "fst (generateImage world_ok fox empty_db)
     = Inr \<lparr>promptId = ''p1'', result_images = [saved_a, saved_c]\<rparr>
   \<and> list_all2 (row_of_saved (prompt_row_of world_ok fox) (size_of fox))
       (images (snd (generateImage world_ok fox empty_db))) [saved_a, saved_c]
   \<and> prompts (snd (generateImage world_ok fox empty_db)) = [prompt_row_of world_ok fox]
   \<and> fst (generateImage world_null_item fox empty_db) = Inl (null_property_error ''url'')
   \<and> images (snd (generateImage world_null_item fox empty_db)) = [image_a]
   \<and> prompts (snd (generateImage world_null_item fox empty_db))
       = [prompt_row_of world_null_item fox]"
proof -
  have e: "prompts empty_db = []" "images empty_db = []" by (simp_all add: empty_db_def)
  have r1: "fst (generateImage world_ok fox empty_db)
     = Inr \<lparr>promptId = ''p1'', result_images = [saved_a, saved_c]\<rparr>" by (simp add: fox_run)
  from image_rows_reference_prompt[of world_ok fox empty_db] obtain rows news where
    a: "images (snd (generateImage world_ok fox empty_db)) = images empty_db @ rows"
    and b: "list_all2 (row_of_saved (prompt_row_of world_ok fox) (size_of fox)) rows news"
    and c: "rows = [] \<or> prompts (snd (generateImage world_ok fox empty_db))
        = prompts empty_db @ [prompt_row_of world_ok fox]"
    and f: "\<forall>res. fst (generateImage world_ok fox empty_db) = Inr res
           \<longrightarrow> result_images res = news \<and> promptId res = p_id (prompt_row_of world_ok fox)"
    by blast
  from f r1 have news: "news = [saved_a, saved_c]" by auto
  with b have "length rows = 2" by (simp add: list_all2_lengthD)
  then have "rows \<noteq> []" by auto
  with c e have p1: "prompts (snd (generateImage world_ok fox empty_db))
      = [prompt_row_of world_ok fox]" by simp
  from a b e news have l1: "list_all2 (row_of_saved (prompt_row_of world_ok fox) (size_of fox))
       (images (snd (generateImage world_ok fox empty_db))) [saved_a, saved_c]" by simp
  have r2: "fst (generateImage world_null_item fox empty_db) = Inl (null_property_error ''url'')"
    and i2: "images (snd (generateImage world_null_item fox empty_db)) = [image_a]"
    by (simp_all add: null_item_run)
  from image_rows_reference_prompt[of world_null_item fox empty_db] obtain rows2 where
    a2: "images (snd (generateImage world_null_item fox empty_db)) = images empty_db @ rows2"
    and c2: "rows2 = [] \<or> prompts (snd (generateImage world_null_item fox empty_db))
        = prompts empty_db @ [prompt_row_of world_null_item fox]"
    by blast
  from a2 i2 e have "rows2 \<noteq> []" by auto
  with c2 e have p2: "prompts (snd (generateImage world_null_item fox empty_db))
       = [prompt_row_of world_null_item fox]" by simp
  from r1 l1 p1 r2 i2 p2 show ?thesis by simp
qed

text \<open>
  C8, as the specification states it, fails: \<open>generateImage\<close> called with a prompt of three
  spaces raises no validation error, stores the prompt row and completes, and the
  serverless function accepts that prompt.
\<close>

theorem blank_prompt_counterexample:
  "fst (generateImage world_ok blank empty_db)
     = Inr \<lparr>promptId = ''p1'', result_images = [saved_a, saved_c]\<rparr>
   \<and> map p_prompt (prompts (snd (generateImage world_ok blank empty_db))) = [three_spaces]
   \<and> handler proxy_env (post_of (Some (J_string three_spaces))) = Reply 200 (Data_json (Some (map Some
        [\<lparr>item_url = Some ''https://ark/a.png''\<rparr>, \<lparr>item_url = Some ''https://ark/b.png''\<rparr>,
         \<lparr>item_url = Some ''https://ark/c.png''\<rparr>])))"
proof -
  have a: "fst (generateImage world_ok blank empty_db)
     = Inr \<lparr>promptId = ''p1'', result_images = [saved_a, saved_c]\<rparr>" by (simp add: blank_run)
  have b: "map p_prompt (prompts (snd (generateImage world_ok blank empty_db))) = [three_spaces]"
    by (simp add: blank_run fox_prompt_def)
  have e: "handler proxy_env (post_of (Some (J_string three_spaces))) = Reply 200 (Data_json (Some (map Some
        [\<lparr>item_url = Some ''https://ark/a.png''\<rparr>, \<lparr>item_url = Some ''https://ark/b.png''\<rparr>,
         \<lparr>item_url = Some ''https://ark/c.png''\<rparr>])))"
    by (simp add: handler_def proxy_env_def post_of_def three_spaces_def three_urls_def
        response_ok_def falsy_def)
  from a b e show ?thesis by simp
qed

lemma trim_blank: "(trim p = []) = (\<forall>c\<in>set p. is_space c)"
proof
  assume "\<forall>c\<in>set p. is_space c"
  then have e: "dropWhile is_space p = []" by (rule iffD2[OF dropWhile_eq_Nil_conv])
  show "trim p = []" unfolding trim_def e by simp
next
  assume t: "trim p = []"
  have "dropWhile is_space p = []"
  proof (rule ccontr)
    assume ne: "dropWhile is_space p \<noteq> []"
    then have h: "\<not> is_space (hd (dropWhile is_space p))" by (rule hd_dropWhile)
    from t have "dropWhile is_space (rev (dropWhile is_space p)) = []"
      unfolding trim_def by simp
    then have "\<forall>x\<in>set (rev (dropWhile is_space p)). is_space x"
      by (rule iffD1[OF dropWhile_eq_Nil_conv])
    moreover from ne have "hd (dropWhile is_space p) \<in> set (rev (dropWhile is_space p))"
      by simp
    ultimately show False using h by blast
  qed
  then show "\<forall>c\<in>set p. is_space c" by (rule iffD1[OF dropWhile_eq_Nil_conv])
qed

lemma handleGenerate_ignored:
  "(fst (handleGenerate w p user settings d) = Ignored) = (\<forall>c\<in>set p. is_space c)"
  by (auto simp: handleGenerate_def trim_blank split: option.splits prod.splits)

lemma internal_error_not_required:
  "internal_error msg \<noteq> Reply 400 (Error_json ''Prompt is required'')"
  by (simp add: internal_error_def)

lemma provider_reply_not_required:
  "(case res of
      Rejected msg \<Rightarrow> internal_error msg
    | Responded r \<Rightarrow>
        if \<not> response_ok (r_status r)
        then Reply (r_status r)
               (Error_json (''API Error: '' @ string_of_nat (r_status r) @ '' - '' @ r_text r))
        else (case r_body r of
                Malformed msg \<Rightarrow> internal_error msg
              | Null_body \<Rightarrow> Reply 200 Null_json
              | Not_a_list \<Rightarrow> Reply 200 Other_json
              | Parsed items \<Rightarrow> Reply 200 (Data_json items)))
     \<noteq> Reply 400 (Error_json ''Prompt is required'')"
proof (cases res)
  case (Rejected msg)
  then show ?thesis by (simp add: internal_error_not_required)
next
  case (Responded r)
  show ?thesis
  proof (cases "response_ok (r_status r)")
    case False
    with Responded show ?thesis by simp
  next
    case True
    with Responded show ?thesis
      by (cases "r_body r") (simp_all add: internal_error_not_required)
  qed
qed

lemma handler_prompt_required:
  "(handler env req = Reply 400 (Error_json ''Prompt is required''))
     = (hq_method req = ''POST''
        \<and> (\<exists>body. hq_body req = Some body
              \<and> (case hb_prompt body of None \<Rightarrow> True | Some v \<Rightarrow> falsy v)))"
proof (cases "hq_method req = ''POST''")
  case False
  then show ?thesis by (simp add: handler_def)
next
  case True
  note post = True
  show ?thesis
  proof (cases "hq_body req")
    case None
    with post show ?thesis by (simp add: handler_def internal_error_not_required)
  next
    case (Some body)
    note body = Some
    show ?thesis
    proof (cases "case hb_prompt body of None \<Rightarrow> True | Some v \<Rightarrow> falsy v")
      case True
      note falsy = True
      have "handler env req = Reply 400 (Error_json ''Prompt is required'')"
      proof (cases "hb_prompt body")
        case None
        with post body show ?thesis by (simp add: handler_def)
      next
        case (Some v)
        with falsy have "falsy v" by simp
        with Some post body show ?thesis by (simp add: handler_def)
      qed
      with post body falsy show ?thesis by simp
    next
      case False
      then obtain p where p: "hb_prompt body = Some p" "\<not> falsy p"
        by (auto split: option.splits)
      have "handler env req \<noteq> Reply 400 (Error_json ''Prompt is required'')"
      proof (cases "ARK_API_KEY env")
        case None
        with post body p show ?thesis by (simp add: handler_def)
      next
        case (Some k)
        show ?thesis
        proof (cases "k = []")
          case True
          with Some post body p show ?thesis by (simp add: handler_def)
        next
          case False
          with Some post body p show ?thesis
            by (simp add: handler_def provider_reply_not_required)
        qed
      qed
      with post body False show ?thesis by simp
    qed
  qed
qed

text \<open>
  C8, amended. For every prompt that is empty or consists of white space only (the white
  space \<open>String.prototype.trim\<close> removes), and for no other prompt, the page's
  \<open>handleGenerate\<close> returns at once: the hook and \<open>generateImage\<close> are not called, no error
  is raised and the database is unchanged, so no prompt row is created. \<open>generateImage\<close>
  itself validates nothing: whenever the insert of the prompt row goes through, as it
  does for a prompt of white space, the row is stored with the prompt text as given,
  before the generation endpoint is called; for the empty prompt the insert is refused
  (by the table's constraint, if nothing else), the call throws and nothing is stored.
  The serverless function answers 400 with \<open>Prompt is required\<close> exactly when a POST has
  a body whose prompt is missing or a value JavaScript takes for false (\<open>null\<close>,
  \<open>false\<close>, 0, the empty string); a POST without a body is answered 500.
\<close>

theorem blank_prompt_is_ignored_by_page:
  "((\<forall>c\<in>set p. is_space c) \<longrightarrow> handleGenerate w p user settings d = (Ignored, d))
   \<and> ((\<exists>c\<in>set p. \<not> is_space c) \<longrightarrow> fst (handleGenerate w p user settings d) \<noteq> Ignored)
   \<and> (insert_accepted w params
        \<longrightarrow> prompts (snd (generateImage w params d)) = prompts d @ [prompt_row_of w params]
          \<and> p_prompt (prompt_row_of w params) = gp_prompt params)
   \<and> (gp_prompt params = [] \<longrightarrow> (\<exists>msg. generateImage w params d = (Inl msg, d)))
   \<and> ((handler env req = Reply 400 (Error_json ''Prompt is required''))
        = (hq_method req = ''POST''
           \<and> (\<exists>body. hq_body req = Some body
                 \<and> (case hb_prompt body of None \<Rightarrow> True | Some v \<Rightarrow> falsy v))))
   \<and> (hq_method req = ''POST'' \<and> hq_body req = None
        \<longrightarrow> handler env req = internal_error (destructure_error env))"
proof (intro conjI impI)
  assume "\<forall>c\<in>set p. is_space c"
  then show "handleGenerate w p user settings d = (Ignored, d)"
    by (simp add: handleGenerate_def trim_blank)
next
  assume "\<exists>c\<in>set p. \<not> is_space c"
  then show "fst (handleGenerate w p user settings d) \<noteq> Ignored"
    by (simp add: handleGenerate_ignored)
next
  assume "insert_accepted w params"
  then show "prompts (snd (generateImage w params d)) = prompts d @ [prompt_row_of w params]"
    by (rule generateImage_prompts)
next
  show "p_prompt (prompt_row_of w params) = gp_prompt params" by (simp add: prompt_row_of_def)
next
  assume "gp_prompt params = []"
  then have "\<not> insert_accepted w params" by (simp add: insert_accepted_def)
  then show "\<exists>msg. generateImage w params d = (Inl msg, d)" by (rule generateImage_refused)
next
  show "(handler env req = Reply 400 (Error_json ''Prompt is required''))
        = (hq_method req = ''POST''
           \<and> (\<exists>body. hq_body req = Some body
                 \<and> (case hb_prompt body of None \<Rightarrow> True | Some v \<Rightarrow> falsy v)))"
    by (rule handler_prompt_required)
next
  assume "hq_method req = ''POST'' \<and> hq_body req = None"
  then show "handler env req = internal_error (destructure_error env)"
    by (simp add: handler_def)
qed

theorem blank_prompt_is_ignored_by_page_witness:
  "handleGenerate world_ok nbsp_between_spaces (Some ''u1'') page_settings empty_db
     = (Ignored, empty_db)
   \<and> fst (handleGenerate world_ok [0x20, 0x41] (Some ''u1'') page_settings empty_db) \<noteq> Ignored
   \<and> insert_accepted world_ok blank
   \<and> map p_prompt (prompts (snd (generateImage world_ok blank empty_db))) = [three_spaces]
   \<and> prompts (snd (generateImage world_ok (fox\<lparr>gp_prompt := []\<rparr>) empty_db)) = []
   \<and> handler proxy_env (post_of (Some (J_string []))) = Reply 400 (Error_json ''Prompt is required'')
   \<and> handler proxy_env (post_of (Some (J_number 0))) = Reply 400 (Error_json ''Prompt is required'')
   \<and> handler proxy_env post_without_body
       = Reply 500 (Error_json ''Internal server error: Cannot destructure property of undefined'')"
proof -
  have sp: "\<forall>c\<in>set nbsp_between_spaces. is_space c"
    by (simp add: nbsp_between_spaces_def is_space_def)
  have ns: "\<exists>c\<in>set [0x20, 0x41]. \<not> is_space c" by (simp add: is_space_def)
  have acc: "insert_accepted world_ok blank"
    by (simp add: insert_accepted_def world_ok_def blank_def fox_def guidance_scale_of_def
        three_spaces_def)
  have emp: "gp_prompt (fox\<lparr>gp_prompt := []\<rparr>) = []" by simp
  have post: "hq_method (post_of (Some v)) = ''POST''"
    "falsy v \<Longrightarrow> \<exists>body. hq_body (post_of (Some v)) = Some body
        \<and> (case hb_prompt body of None \<Rightarrow> True | Some v \<Rightarrow> falsy v)" for v
    by (simp_all add: post_of_def)
  have fa: "falsy (J_string [])" "falsy (J_number 0)" by (simp_all add: falsy_def)
  have nobody: "hq_method post_without_body = ''POST'' \<and> hq_body post_without_body = None"
    by (simp add: post_without_body_def)
  note t1 = blank_prompt_is_ignored_by_page[of nbsp_between_spaces world_ok "Some ''u1''"
      page_settings empty_db blank proxy_env "post_of (Some (J_string []))"]
  note t3 = blank_prompt_is_ignored_by_page[of nbsp_between_spaces world_ok "Some ''u1''"
      page_settings empty_db blank proxy_env "post_of (Some (J_number 0))"]
  note t2 = blank_prompt_is_ignored_by_page[of "[0x20, 0x41]" world_ok "Some ''u1''"
      page_settings empty_db "fox\<lparr>gp_prompt := []\<rparr>" proxy_env post_without_body]
  from t1 sp have a: "handleGenerate world_ok nbsp_between_spaces (Some ''u1'') page_settings
      empty_db = (Ignored, empty_db)" by blast
  from t2 ns have b: "fst (handleGenerate world_ok [0x20, 0x41] (Some ''u1'') page_settings
      empty_db) \<noteq> Ignored" by blast
  from t1 acc have "prompts (snd (generateImage world_ok blank empty_db))
      = prompts empty_db @ [prompt_row_of world_ok blank]" by blast
  then have c: "map p_prompt (prompts (snd (generateImage world_ok blank empty_db)))
      = [three_spaces]"
    by (simp add: empty_db_def prompt_row_of_def blank_def)
  from t2 emp obtain msg where
    "generateImage world_ok (fox\<lparr>gp_prompt := []\<rparr>) empty_db = (Inl msg, empty_db)" by blast
  then have e: "prompts (snd (generateImage world_ok (fox\<lparr>gp_prompt := []\<rparr>) empty_db)) = []"
    by (simp add: empty_db_def)
  from t1 post[of "J_string []"] fa have f: "handler proxy_env (post_of (Some (J_string [])))
      = Reply 400 (Error_json ''Prompt is required'')" by blast
  from t3 post[of "J_number 0"] fa have f3: "handler proxy_env (post_of (Some (J_number 0)))
      = Reply 400 (Error_json ''Prompt is required'')" by blast
  from t2 nobody have "handler proxy_env post_without_body
      = internal_error (destructure_error proxy_env)" by blast
  then have g: "handler proxy_env post_without_body
       = Reply 500 (Error_json ''Internal server error: Cannot destructure property of undefined'')"
    by (simp add: internal_error_def proxy_env_def)
  from a b acc c e f f3 g show ?thesis by simp
qed

section \<open>Properties of the reads and lookups\<close>










lemma filter_key_distinct:
  "distinct (map f xs) \<Longrightarrow> x \<in> set xs \<Longrightarrow> filter (\<lambda>y. f y = f x) xs = [x]"
proof (induction xs)
  case Nil
  then show ?case by simp
next
  case (Cons a xs)
  show ?case
  proof (cases "a = x")
    case True
    with Cons.prems have "\<forall>y\<in>set xs. f y \<noteq> f x" by (auto simp: image_iff)
    then have "filter (\<lambda>y. f y = f x) xs = []" by (simp add: filter_empty_conv)
    with True show ?thesis by simp
  next
    case False
    with Cons.prems have xin: "x \<in> set xs" by simp
    with Cons.prems have "f a \<noteq> f x" by (auto simp: image_iff)
    moreover from Cons.IH Cons.prems xin have "filter (\<lambda>y. f y = f x) xs = [x]" by simp
    ultimately show ?thesis by simp
  qed
qed

lemma filter_key_absent: "k \<notin> f ` set xs \<Longrightarrow> filter (\<lambda>y. f y = k) xs = []"
  by (auto simp: filter_empty_conv)





text \<open>
  C10. A lookup by id that matches no row returns \<open>null\<close> and does not throw; with
  unique ids, an id that is in the table returns its row, so only the id that is not
  found gives \<open>null\<close>; a backend error with any code but PGRST116 is thrown, with the
  backend's message.
\<close>

theorem lookup_not_found_is_null:
  "(ident \<notin> p_id ` set (prompts d) \<longrightarrow> getPromptById None d ident = Inr None)
   \<and> (ident \<notin> v_id ` set (videos d) \<longrightarrow> getVideoById None d ident = Inr None)
   \<and> (distinct (map p_id (prompts d)) \<and> p \<in> set (prompts d)
        \<longrightarrow> getPromptById None d (p_id p) = Inr (Some p))
   \<and> (distinct (map v_id (videos d)) \<and> v \<in> set (videos d)
        \<longrightarrow> getVideoById None d (v_id v) = Inr (Some v))
   \<and> (pg_code e \<noteq> ''PGRST116''
        \<longrightarrow> getPromptById (Some e) d ident = Inl (''Failed to get prompt: '' @ pg_message e)
          \<and> getVideoById (Some e) d ident = Inl (''Failed to get video: '' @ pg_message e))"
proof (intro conjI impI)
  assume "ident \<notin> p_id ` set (prompts d)"
  then have "filter (\<lambda>p. p_id p = ident) (prompts d) = []" by (rule filter_key_absent)
  then show "getPromptById None d ident = Inr None"
    by (simp add: getPromptById_def getPromptById_response_def single_def PGRST116_def)
next
  assume "ident \<notin> v_id ` set (videos d)"
  then have "filter (\<lambda>v. v_id v = ident) (videos d) = []" by (rule filter_key_absent)
  then show "getVideoById None d ident = Inr None"
    by (simp add: getVideoById_def getVideoById_response_def single_def PGRST116_def)
next
  assume "distinct (map p_id (prompts d)) \<and> p \<in> set (prompts d)"
  then have "filter (\<lambda>y. p_id y = p_id p) (prompts d) = [p]" by (simp add: filter_key_distinct)
  then show "getPromptById None d (p_id p) = Inr (Some p)"
    by (simp add: getPromptById_def getPromptById_response_def single_def)
next
  assume "distinct (map v_id (videos d)) \<and> v \<in> set (videos d)"
  then have "filter (\<lambda>y. v_id y = v_id v) (videos d) = [v]" by (simp add: filter_key_distinct)
  then show "getVideoById None d (v_id v) = Inr (Some v)"
    by (simp add: getVideoById_def getVideoById_response_def single_def)
next
  assume "pg_code e \<noteq> ''PGRST116''"
  then show "getPromptById (Some e) d ident = Inl (''Failed to get prompt: '' @ pg_message e)"
    and "getVideoById (Some e) d ident = Inl (''Failed to get video: '' @ pg_message e)"
    by (simp_all add: getPromptById_def getPromptById_response_def
        getVideoById_def getVideoById_response_def single_def)
qed

theorem lookup_not_found_is_null_witness:
  "''nope'' \<notin> p_id ` set (prompts history_db)
   \<and> getPromptById None history_db ''nope'' = Inr None
   \<and> getVideoById None history_db ''nope'' = Inr None
   \<and> distinct (map p_id (prompts history_db))
   \<and> getPromptById None history_db ''p1'' = Inr (Some fox_prompt)
   \<and> getVideoById None history_db ''v1'' = Inr (Some video_running)
   \<and> pg_code gateway_timeout \<noteq> ''PGRST116''
   \<and> getPromptById (Some gateway_timeout) history_db ''p1''
       = Inl ''Failed to get prompt: upstream timeout''
   \<and> getVideoById (Some gateway_timeout) history_db ''v1''
       = Inl ''Failed to get video: upstream timeout''"
proof -
  have a: "''nope'' \<notin> p_id ` set (prompts history_db)"
    by (simp add: history_db_def fox_prompt_def)
  have b: "''nope'' \<notin> v_id ` set (videos history_db)"
    by (simp add: history_db_def video_running_def)
  have c: "distinct (map p_id (prompts history_db))" "fox_prompt \<in> set (prompts history_db)"
    "p_id fox_prompt = ''p1''"
    by (simp_all add: history_db_def fox_prompt_def)
  have e: "distinct (map v_id (videos history_db))" "video_running \<in> set (videos history_db)"
    "v_id video_running = ''v1''"
    by (simp_all add: history_db_def video_running_def)
  have f: "pg_code gateway_timeout \<noteq> ''PGRST116''" "pg_message gateway_timeout = ''upstream timeout''"
    by (simp_all add: gateway_timeout_def)
  from lookup_not_found_is_null[of "''nope''" history_db fox_prompt video_running gateway_timeout]
    a b c e f
  have g: "getPromptById None history_db ''nope'' = Inr None"
    "getVideoById None history_db ''nope'' = Inr None"
    "getPromptById None history_db ''p1'' = Inr (Some fox_prompt)"
    "getVideoById None history_db ''v1'' = Inr (Some video_running)"
    by simp_all
  from lookup_not_found_is_null[of "''p1''" history_db fox_prompt video_running gateway_timeout] f
  have h: "getPromptById (Some gateway_timeout) history_db ''p1''
       = Inl ''Failed to get prompt: upstream timeout''" by simp
  from lookup_not_found_is_null[of "''v1''" history_db fox_prompt video_running gateway_timeout] f
  have i: "getVideoById (Some gateway_timeout) history_db ''v1''
       = Inl ''Failed to get video: upstream timeout''" by simp
  from a c(1) f(1) g h i show ?thesis by simp
qed

end
